theory Spec2Isabelle
  imports Complex_Main "HOL-Library.Word" "HOL-Library.Signed_Division"
begin

section \<open>The NSCC trace logger (nscc\_trace\_logger.h and its implementation)\<close>

text \<open>
  The simulator's scalar types. \<open>simtime_picosec\<close> is a time in picoseconds,
  \<open>mem_b\<close> a (signed) byte count, \<open>flowid_t\<close> a flow identifier; their typedefs live in
  the simulator's configuration header, so they are taken here as the unbounded
  \<open>nat\<close> and \<open>int\<close>. The quadrant argument is a \<open>uint8_t\<close>.
\<close>

type_synonym simtime_picosec = nat
type_synonym mem_b = int
type_synonym flowid_t = nat

text \<open>
  One comma-separated field of the CSV file. \<open>Micros t\<close> is what
  \<open>_file << timeAsUs(t)\<close> prints (the picosecond time \<open>t\<close> rendered in microseconds),
  \<open>Whole n\<close> a printed integer, \<open>Ident f\<close> a printed flow id, \<open>Text s\<close> a column title.
  A row is one line of the file.
\<close>

datatype cell = Micros simtime_picosec | Whole int | Ident flowid_t | Text string

type_synonym row = "cell list"

text \<open>
  The logger object: its only member is \<open>std::ofstream _file\<close>, modelled by whether the
  stream is open and by the lines written to it so far.
\<close>

record NsccTraceLogger =
  file_is_open :: bool
  file_rows :: "row list"

definition csv_header :: row where
  "csv_header = map Text
     [''time_us'', ''flow_id'', ''cwnd'', ''in_flight'', ''bdp'', ''maxwnd'',
      ''avg_delay_us'', ''raw_delay_us'', ''target_us'', ''base_rtt_us'',
      ''ecn'', ''quadrant'',
      ''inc_fair'', ''inc_prop'', ''inc_fast'', ''inc_eta'', ''dec_multi'', ''dec_quick'']"

text \<open>
  The constructor. \<open>can_open\<close> says which paths \<open>_file.open\<close> succeeds on; \<open>cerr\<close> is
  the text already on the standard error stream, returned with what the constructor
  adds. There is no \<open>throw\<close> in the constructor and the stream's exception mask is
  left at its default, so the only outcomes are the two below.
\<close>

definition NsccTraceLogger_new ::
  "(string \<Rightarrow> bool) \<Rightarrow> string \<Rightarrow> string list \<Rightarrow> NsccTraceLogger \<times> string list" where
  "NsccTraceLogger_new can_open filepath cerr =
     (if \<not> can_open filepath
      then (\<lparr>file_is_open = False, file_rows = []\<rparr>,
            cerr @ [''NsccTraceLogger: failed to open '' @ filepath])
      else (\<lparr>file_is_open = True, file_rows = [csv_header]\<rparr>, cerr))"

definition is_open :: "NsccTraceLogger \<Rightarrow> bool" where
  "is_open lg = file_is_open lg"

definition logSample ::
  "simtime_picosec \<Rightarrow> flowid_t \<Rightarrow> mem_b \<Rightarrow> mem_b \<Rightarrow> mem_b \<Rightarrow> mem_b \<Rightarrow>
   simtime_picosec \<Rightarrow> simtime_picosec \<Rightarrow> simtime_picosec \<Rightarrow> simtime_picosec \<Rightarrow>
   bool \<Rightarrow> 8 word \<Rightarrow> mem_b \<Rightarrow> mem_b \<Rightarrow> mem_b \<Rightarrow> mem_b \<Rightarrow> mem_b \<Rightarrow> mem_b \<Rightarrow>
   NsccTraceLogger \<Rightarrow> NsccTraceLogger" where
  "logSample time flow_id cwnd in_flight bdp maxwnd avg_delay raw_delay target_delay base_rtt
     ecn quadrant inc_fair inc_prop inc_fast inc_eta dec_multi dec_quick lg =
     (if \<not> is_open lg then lg
      else lg\<lparr>file_rows := file_rows lg @
        [[Micros time, Ident flow_id, Whole cwnd, Whole in_flight, Whole bdp, Whole maxwnd,
          Micros avg_delay, Micros raw_delay, Micros target_delay, Micros base_rtt,
          Whole (if ecn then 1 else 0), Whole (uint quadrant),
          Whole inc_fair, Whole inc_prop, Whole inc_fast, Whole inc_eta,
          Whole dec_multi, Whole dec_quick]]\<rparr>)"

definition logQAEvent ::
  "simtime_picosec \<Rightarrow> flowid_t \<Rightarrow> mem_b \<Rightarrow> mem_b \<Rightarrow> mem_b \<Rightarrow> mem_b \<Rightarrow>
   NsccTraceLogger \<Rightarrow> NsccTraceLogger" where
  "logQAEvent time flow_id cwnd_before cwnd_after achieved_bytes in_flight lg =
     (if \<not> is_open lg then lg
      else lg\<lparr>file_rows := file_rows lg @
        [[Micros time, Ident flow_id, Whole cwnd_after, Whole in_flight,
          Whole 0, Whole 0, Whole 0, Whole 0, Whole 0, Whole 0, Whole 0,
          Whole 5,
          Whole cwnd_before, Whole cwnd_after, Whole achieved_bytes,
          Whole 0, Whole 0, Whole 0]]\<rparr>)"

text \<open>A call a client makes on a constructed logger, and a run of such calls in order.\<close>

datatype log_call =
    LogSample simtime_picosec flowid_t mem_b mem_b mem_b mem_b
      simtime_picosec simtime_picosec simtime_picosec simtime_picosec
      bool "8 word" mem_b mem_b mem_b mem_b mem_b mem_b
  | LogQAEvent simtime_picosec flowid_t mem_b mem_b mem_b mem_b

fun perform :: "log_call \<Rightarrow> NsccTraceLogger \<Rightarrow> NsccTraceLogger" where
  "perform (LogSample t f c i b m a r tg br e q x1 x2 x3 x4 x5 x6) lg =
     logSample t f c i b m a r tg br e q x1 x2 x3 x4 x5 x6 lg"
| "perform (LogQAEvent t f cb ca ab i) lg = logQAEvent t f cb ca ab i lg"

fun perform_all :: "log_call list \<Rightarrow> NsccTraceLogger \<Rightarrow> NsccTraceLogger" where
  "perform_all [] lg = lg"
| "perform_all (c # cs) lg = perform_all cs (perform c lg)"

text \<open>
  Modelled from the spec: the code 4 of fast increase in the quadrant column. The
  caller that passes the quadrant argument (the sender's window controller) is not
  among the sources, and the header's comment, which fixes the codes 0, 1, 2, 3 and 5,
  does not list 4; that value is the one of the specification's description of the
  trace sink.
\<close>

datatype quadrant =
  FairIncrease | ProportionalIncrease | MultiplicativeDecrease | Noop | FastIncrease | QuickAdapt

fun quadrant_code :: "quadrant \<Rightarrow> 8 word" where
  "quadrant_code FairIncrease = 0"
| "quadrant_code ProportionalIncrease = 1"
| "quadrant_code MultiplicativeDecrease = 2"
| "quadrant_code Noop = 3"
| "quadrant_code FastIncrease = 4"
| "quadrant_code QuickAdapt = 5"

section \<open>The NSCC sender core\<close>

text \<open>
  The sender's implementation file (uec.cpp) is not among the sources; the repository
  documents it in NSCC\_DEEP\_DIVE.md, which quotes its functions with their line
  numbers. The definitions below that translate such a quoted fragment say so and name
  the fragment. The remaining ones (the order in which one ACK runs through the stages,
  the stale-feedback mask, the delay filter, Quick Adapt) are not quoted as code and are
  modelled from the specification; their comments start with "Modelled from the spec".

  Byte quantities (windows, counters of bytes) are values of the simulator's integer
  type \<open>mem_b\<close>, as in the signatures of \<open>initNscc\<close> and of the trace logger. The
  gains of the scaling oracle are floating-point numbers in the sender; they are taken
  here as exact rationals, and so is every floating-point intermediate value, so the
  rounding of the floating-point operations themselves is outside the model, while the
  loss of the fraction when such a value is stored into an integer field is part of it.
  Times are in picoseconds and are kept as rationals.
\<close>

text \<open>
  The conversion of a floating-point value to an integer, as it happens in the stores
  \<^verbatim>\<open>_cwnd *= ...\<close>, \<^verbatim>\<open>_cwnd += _eta\<close> or \<^verbatim>\<open>_bdp = ...\<close>: the fractional part is
  discarded (truncation toward zero).
\<close>

definition mem_b_of :: "rat \<Rightarrow> mem_b" where
  "mem_b_of x = (if 0 \<le> x then \<lfloor>x\<rfloor> else \<lceil>x\<rceil>)"

subsection \<open>Parameters and per-flow state\<close>

text \<open>
  The parameter bundle of the scaling oracle (\<open>initNsccParams\<close>), read-only for a
  flow's lifetime. \<open>avg_pkt_size\<close> stands for the sender's \<open>get_avg_pktsize()\<close>,
  \<open>linkspeed\<close> for \<open>_nic.linkspeed()\<close> in bits per second, and \<open>maxwnd_multiplier\<close>
  for the static \<open>UecSrc::_maxwnd_multiplier\<close>, which the driver sets from its option
  \<open>-maxwnd_mult\<close> (default 1.5).
\<close>

record nscc_params =
  alpha :: rat
  fi :: rat
  eta :: rat
  fi_scale :: rat
  gamma :: rat
  delay_alpha :: rat
  target_Qdelay :: rat
  qa_gate :: nat
  maxwnd_multiplier :: rat
  mtu :: mem_b
  adjust_period_threshold :: rat
  linkspeed :: int
  avg_pkt_size :: mem_b
  update_base_rtt_on_nack :: bool

definition min_cwnd :: "nscc_params \<Rightarrow> mem_b" where
  "min_cwnd p = mtu p"

definition adjust_bytes_threshold :: "nscc_params \<Rightarrow> mem_b" where
  "adjust_bytes_threshold p = 8 * mtu p"

definition qa_threshold :: "nscc_params \<Rightarrow> rat" where
  "qa_threshold p = 4 * target_Qdelay p"

definition loss_retx_factor :: rat where
  "loss_retx_factor = 3 / 2"

definition min_retx_config :: int where
  "min_retx_config = 5"

text \<open>
  The per-flow state of the specification's data model. \<open>fi_count\<close> and \<open>fast_mode\<close>
  are the counter and the mode of the fast-increase qualification; \<open>unacked\<close> lists the
  sequence numbers sent and not yet acknowledged; \<open>in_flight\<close> is maintained by the
  transmit path and only read here.
\<close>

record nscc =
  base_rtt :: rat
  bdp :: mem_b
  maxwnd :: mem_b
  cwnd :: mem_b
  inc_bytes :: mem_b
  received_bytes :: mem_b
  last_adjust_time :: rat
  avg_delay :: rat
  achieved_bytes :: mem_b
  qa_last_eval_time :: rat
  trigger_qa :: bool
  bytes_to_ignore :: mem_b
  bytes_ignored :: mem_b
  last_dec_time :: rat
  in_flight :: mem_b
  fi_count :: mem_b
  fast_mode :: bool
  out_of_order_count :: nat
  loss_recovery_mode :: bool
  recovery_seqno :: nat
  rtx_queue :: "nat list"
  unacked :: "nat list"
  highest_sent :: nat
  cumulative_ack :: nat

subsection \<open>Functions quoted from the sender's implementation\<close>

text \<open>
  An assignment such as \<^verbatim>\<open>_cwnd += x\<close> or \<^verbatim>\<open>_cwnd *= x\<close> with an integer field
  on the left and a floating-point \<open>x\<close> computes in floating point and stores the
  result converted back to the integer type; the definitions write this out with
  \<open>of_int\<close> and \<open>mem_b_of\<close>.
\<close>

text \<open>
  \<open>timeAsUs\<close>: a picosecond time in microseconds (the simulator's helper, which
  returns a floating-point number).
\<close>

definition timeAsUs :: "rat \<Rightarrow> rat" where
  "timeAsUs t = t / 1000000"

text \<open>
  \<open>UecSrc::update_base_rtt\<close> (quoted whole, uec.cpp:1414-1425):
  \<^verbatim>\<open>
  if (_base_rtt > raw_rtt) {
      _base_rtt = raw_rtt;
      _bdp = timeAsUs(raw_rtt) * _nic.linkspeed() / 8000000;
      _maxwnd = 1.5 * _bdp;
  }
  \<close>
  Both stores go into \<open>mem_b\<close> fields, and the second one reads the \<open>_bdp\<close> the first
  one has just stored. The document prints the multiplier at its default value; it is
  \<open>maxwnd_multiplier\<close> of the bundle.
\<close>

definition update_base_rtt :: "nscc_params \<Rightarrow> rat \<Rightarrow> nscc \<Rightarrow> nscc" where
  "update_base_rtt p raw_rtt s =
     (if base_rtt s > raw_rtt
      then (let s1 = s\<lparr>base_rtt := raw_rtt\<rparr>;
                s2 = s1\<lparr>bdp := mem_b_of (timeAsUs raw_rtt * of_int (linkspeed p) / 8000000)\<rparr>
            in s2\<lparr>maxwnd := mem_b_of (maxwnd_multiplier p * of_int (bdp s2))\<rparr>)
      else s)"

text \<open>
  The window bounds (uec.cpp:1137-1143), two tests in this order:
  \<^verbatim>\<open>
  if (_cwnd < _min_cwnd) _cwnd = _min_cwnd;
  if (_cwnd > _maxwnd)   _cwnd = _maxwnd;
  \<close>
\<close>

definition check_bounds :: "nscc_params \<Rightarrow> nscc \<Rightarrow> nscc" where
  "check_bounds p s =
     (let s1 = (if cwnd s < min_cwnd p then s\<lparr>cwnd := min_cwnd p\<rparr> else s)
      in if cwnd s1 > maxwnd s1 then s1\<lparr>cwnd := maxwnd s1\<rparr> else s1)"

text \<open>\<open>fair_increase\<close> (uec.cpp:1204): \<^verbatim>\<open>_inc_bytes += _fi * newly_acked_bytes;\<close>\<close>

definition fair_increase :: "nscc_params \<Rightarrow> mem_b \<Rightarrow> nscc \<Rightarrow> nscc" where
  "fair_increase p newly_acked_bytes s =
     s\<lparr>inc_bytes := mem_b_of (of_int (inc_bytes s) + fi p * of_int newly_acked_bytes)\<rparr>"

text \<open>
  \<open>proportional_increase\<close> (uec.cpp:1217):
  \<^verbatim>\<open>_inc_bytes += _alpha * newly_acked_bytes * (_target_Qdelay - delay);\<close>
\<close>

definition proportional_increase :: "nscc_params \<Rightarrow> mem_b \<Rightarrow> rat \<Rightarrow> nscc \<Rightarrow> nscc" where
  "proportional_increase p newly_acked_bytes delay s =
     s\<lparr>inc_bytes := mem_b_of (of_int (inc_bytes s)
                         + alpha p * of_int newly_acked_bytes * (target_Qdelay p - delay))\<rparr>"

text \<open>
  The window update of \<open>fast_increase\<close> (uec.cpp:1221-1238):
  \<^verbatim>\<open>_cwnd += newly_acked_bytes * _fi_scale;\<close>
\<close>

definition fast_increase :: "nscc_params \<Rightarrow> mem_b \<Rightarrow> nscc \<Rightarrow> nscc" where
  "fast_increase p newly_acked_bytes s =
     s\<lparr>cwnd := mem_b_of (of_int (cwnd s) + of_int newly_acked_bytes * fi_scale p)\<rparr>"


definition multiplicative_decrease :: "nscc_params \<Rightarrow> rat \<Rightarrow> nscc \<Rightarrow> nscc" where
  "multiplicative_decrease p now s =
     (if avg_delay s > target_Qdelay p
      then (if now - last_dec_time s > base_rtt s
            then s\<lparr>cwnd := mem_b_of (of_int (cwnd s) *
                       max (1 - gamma p * (avg_delay s - target_Qdelay p) / avg_delay s) (1 / 2)),
                   last_dec_time := now\<rparr>
            else s)
      else s)"

text \<open>
  The fulfill adjustment. Its trigger (uec.cpp:1341) is
  \<^verbatim>\<open>_received_bytes > _adjust_bytes_threshold\<close> or
  \<^verbatim>\<open>now - _last_adjust_time > _adjust_period_threshold\<close>; its body is
  \<^verbatim>\<open>
  _cwnd += _inc_bytes / _cwnd;     // uec.cpp:1260
  _cwnd += _eta;                   // uec.cpp:1269
  _inc_bytes = 0;
  _received_bytes = 0;
  \<close>
  and the specification's \<open>last_adjust_time := now\<close>. \<open>_cwnd\<close> is a \<open>mem_b\<close>
  and the accumulator \<open>_inc_bytes\<close> is taken as one too, so the quotient is the integer
  one (rounded toward zero, \<open>sdiv\<close>); the sum with the floating-point \<open>_eta\<close> loses
  its fraction when it is stored. The adjustment runs on a clamped, positive window; for
  a window of zero, where the sender would divide by zero, \<open>sdiv\<close> gives 0.
\<close>

definition fulfill_due :: "nscc_params \<Rightarrow> rat \<Rightarrow> nscc \<Rightarrow> bool" where
  "fulfill_due p now s =
     (received_bytes s > adjust_bytes_threshold p
      \<or> now - last_adjust_time s > adjust_period_threshold p)"

definition fulfill_adjustment :: "nscc_params \<Rightarrow> rat \<Rightarrow> nscc \<Rightarrow> nscc" where
  "fulfill_adjustment p now s =
     (let s1 = s\<lparr>cwnd := cwnd s + inc_bytes s sdiv cwnd s\<rparr>;
          s2 = s1\<lparr>cwnd := mem_b_of (of_int (cwnd s1) + eta p)\<rparr>
      in s2\<lparr>inc_bytes := 0, received_bytes := 0, last_adjust_time := now\<rparr>)"

definition fulfill_check :: "nscc_params \<Rightarrow> rat \<Rightarrow> nscc \<Rightarrow> nscc" where
  "fulfill_check p now s = (if fulfill_due p now s then fulfill_adjustment p now s else s)"

text \<open>
  SLEEK (uec.cpp:1433-1497). The threshold (uec.cpp:1435-1436):
  \<^verbatim>\<open>
  threshold = min(loss_retx_factor * _cwnd, _maxwnd);
  threshold = max(threshold, min_retx_config * avg_size);
  \<close>
  the exit (uec.cpp:1450-1455) and, after it, the entry (uec.cpp:1460-1466):
  \<^verbatim>\<open>
  if (cum_ack >= _recovery_seqno && _loss_recovery_mode) {
      _loss_recovery_mode = false;
  }
  if (!_loss_recovery_mode && _rtx_queue.empty()) {
      _loss_recovery_mode = true;
      _recovery_seqno = _highest_sent;
  }
  \<close>
  The threshold is a number of bytes, the product with the floating-point factor being
  converted to one. On entry the retransmission queue receives every unacknowledged
  segment below the recovery point (the specification's step 2).
\<close>

definition sleek_threshold :: "nscc_params \<Rightarrow> nscc \<Rightarrow> mem_b" where
  "sleek_threshold p s =
     max (min (mem_b_of (loss_retx_factor * of_int (cwnd s))) (maxwnd s))
         (min_retx_config * avg_pkt_size p)"

definition sleek_exit :: "nat \<Rightarrow> nscc \<Rightarrow> nscc" where
  "sleek_exit cum_ack s =
     (if cum_ack \<ge> recovery_seqno s \<and> loss_recovery_mode s
      then s\<lparr>loss_recovery_mode := False\<rparr> else s)"

definition sleek_enter :: "nscc \<Rightarrow> nscc" where
  "sleek_enter s =
     (if \<not> loss_recovery_mode s \<and> rtx_queue s = []
      then s\<lparr>loss_recovery_mode := True,
             recovery_seqno := highest_sent s,
             rtx_queue := filter (\<lambda>q. q < highest_sent s) (unacked s)\<rparr>
      else s)"

text \<open>
  Modelled from the spec: how \<open>runSleek\<close> puts the quoted fragments together. The test
  that leads to the entry is not quoted. The threshold is in bytes, and both the
  document (1.5 times a 600 KB window of 4 KB packets is read as 225 packets) and
  scenario S5 of the specification count the out-of-order packets against it by their
  size; so the out-of-order count is compared with the threshold in bytes, at the
  average packet size.
\<close>

definition runSleek :: "nscc_params \<Rightarrow> nat \<Rightarrow> nat \<Rightarrow> nscc \<Rightarrow> nscc" where
  "runSleek p ooo cum_ack s =
     (let s1 = sleek_exit cum_ack s
      in if int ooo * avg_pkt_size p \<ge> sleek_threshold p s1 then sleek_enter s1 else s1)"

text \<open>
  The scaling oracle \<open>initNsccParams\<close> (uec.cpp:86-159), from the fragments the document
  quotes: the reference network of 100 Gbps and 12 microseconds (uec.cpp:93-95), the
  choice of the target delay (uec.cpp:105-113)
  \<^verbatim>\<open>
  if (target_Qdelay > 0) {
      _target_Qdelay = target_Qdelay;
  } else {
      if (_network_trimming_enabled) {
          _target_Qdelay = _network_rtt * 0.75;
      } else {
          _target_Qdelay = _network_rtt;
      }
  }
  \<close>
  the two scaling factors (uec.cpp:121-122) and the gains
  \<open>alpha = 4 * MSS * a * b / target\<close>, \<open>fi = 5 * MSS * a\<close>, \<open>eta = 0.15 * MSS * a\<close>,
  \<open>fi_scale = 0.25 * a\<close>, \<open>gamma = 0.8\<close>, \<open>delay_alpha = 0.0125\<close>. The segment and
  packet sizes are static configuration and are passed in; the ceiling's multiplier is
  a static of its own and has its default here.
\<close>

definition timeAsSec :: "rat \<Rightarrow> rat" where
  "timeAsSec t = t / 1000000000000"

definition reference_network_bdp :: rat where
  "reference_network_bdp = timeAsSec 12000000 * (100000000000 / 8)"

definition initNsccParams ::
  "rat \<Rightarrow> int \<Rightarrow> rat \<Rightarrow> nat \<Rightarrow> bool \<Rightarrow> mem_b \<Rightarrow> mem_b \<Rightarrow> nscc_params" where
  "initNsccParams network_rtt network_linkspeed target gate trimming mss mtu_bytes =
     (let tq = (if target > 0 then target
                else if trimming then network_rtt * (3 / 4) else network_rtt);
          a = (timeAsSec network_rtt * (of_int network_linkspeed / 8)) / reference_network_bdp;
          b = tq / 12000000
      in \<lparr>alpha = 4 * of_int mss * a * b / tq,
          fi = 5 * of_int mss * a,
          eta = (15 / 100) * of_int mss * a,
          fi_scale = (1 / 4) * a,
          gamma = 4 / 5,
          delay_alpha = 1 / 80,
          target_Qdelay = tq,
          qa_gate = gate,
          maxwnd_multiplier = 3 / 2,
          mtu = mtu_bytes,
          adjust_period_threshold = network_rtt,
          linkspeed = network_linkspeed,
          avg_pkt_size = mtu_bytes,
          update_base_rtt_on_nack = True\<rparr>)"

text \<open>
  \<open>UecSrc::initNscc\<close> (uec.cpp:162-184), quoted in part:
  \<^verbatim>\<open>
  _base_rtt = peer_rtt;
  _base_bdp = timeAsSec(_base_rtt) * (_nic.linkspeed() / 8);
  _bdp = _base_bdp;
  setMaxWnd(1.5 * _bdp);
  \<close>
  The link speed is an integer number of bits per second, so its eighth is the integer
  quotient; the multiplier is \<open>maxwnd_multiplier\<close>, as in \<open>update_base_rtt\<close>. Every
  counter starts at zero, and the timers at the time the flow starts.
\<close>

definition initNscc :: "nscc_params \<Rightarrow> rat \<Rightarrow> mem_b \<Rightarrow> rat \<Rightarrow> nscc" where
  "initNscc p start initial_cwnd peer_rtt =
     \<lparr>base_rtt = peer_rtt,
      bdp = mem_b_of (timeAsSec peer_rtt * of_int (linkspeed p div 8)),
      maxwnd = mem_b_of (maxwnd_multiplier p
                 * of_int (mem_b_of (timeAsSec peer_rtt * of_int (linkspeed p div 8)))),
      cwnd = initial_cwnd,
      inc_bytes = 0,
      received_bytes = 0,
      last_adjust_time = start,
      avg_delay = 0,
      achieved_bytes = 0,
      qa_last_eval_time = start,
      trigger_qa = False,
      bytes_to_ignore = 0,
      bytes_ignored = 0,
      last_dec_time = start,
      in_flight = 0,
      fi_count = 0,
      fast_mode = False,
      out_of_order_count = 0,
      loss_recovery_mode = False,
      recovery_seqno = 0,
      rtx_queue = [],
      unacked = [],
      highest_sent = 0,
      cumulative_ack = 0\<rparr>"

text \<open>
  The network of the specification's scenarios (section 8): 100 Gbps, base RTT 12
  microseconds, trimming enabled (target 9 microseconds), 4096-byte packets, gate 3; so
  \<open>bdp\<close> is 150000 bytes and \<open>maxwnd\<close> 225000 bytes.
\<close>

definition scenario_params :: nscc_params where
  "scenario_params = initNsccParams 12000000 100000000000 0 3 True 4096 4096"

definition scenario_flow :: "mem_b \<Rightarrow> nscc" where
  "scenario_flow initial_cwnd = initNscc scenario_params 0 initial_cwnd 12000000"

subsection \<open>The delay estimator\<close>

text \<open>
  Modelled from the spec: the raw queuing delay \<open>max(raw_rtt - base_rtt, 0)\<close> of
  section 4.B (the document quotes \<^verbatim>\<open>delay = raw_rtt - _base_rtt\<close>, uec.cpp:974,
  computed after the base RTT has been refined; the two agree).
\<close>

definition raw_delay_of :: "rat \<Rightarrow> nscc \<Rightarrow> rat" where
  "raw_delay_of raw_rtt s = max (raw_rtt - base_rtt s) 0"

text \<open>
  Modelled from the spec: the base-RTT refinement of section 4.B. When the sample is
  below the base RTT, \<open>update_base_rtt\<close> shrinks it and recomputes \<open>bdp\<close> and
  \<open>maxwnd\<close>, and the bounds clamp then brings \<open>cwnd\<close> under the new ceiling.
\<close>

definition refine_base_rtt :: "nscc_params \<Rightarrow> rat \<Rightarrow> nscc \<Rightarrow> nscc" where
  "refine_base_rtt p raw_rtt s =
     (if raw_rtt < base_rtt s then check_bounds p (update_base_rtt p raw_rtt s) else s)"

text \<open>
  Modelled from the spec: the sample the delay filter is fed (the three-case table of
  section 4.B; the document lists the same cases for uec.cpp:1402-1423). The extreme
  case is tested first, since it overrides the discount.
\<close>

definition ewma_sample :: "nscc_params \<Rightarrow> bool \<Rightarrow> rat \<Rightarrow> nscc \<Rightarrow> rat" where
  "ewma_sample p ecn raw_delay s =
     (if raw_delay > 5 * base_rtt s then raw_delay
      else if \<not> ecn \<and> raw_delay > target_Qdelay p then (1 / 4) * base_rtt s
      else raw_delay)"

text \<open>
  Modelled from the spec: the EWMA update with weight \<open>delay_alpha\<close>,
  \<open>avg = delay_alpha * sample + (1 - delay_alpha) * avg\<close>.
\<close>

definition update_delay :: "nscc_params \<Rightarrow> bool \<Rightarrow> rat \<Rightarrow> nscc \<Rightarrow> nscc" where
  "update_delay p ecn raw_delay s =
     s\<lparr>avg_delay := delay_alpha p * ewma_sample p ecn raw_delay s
                      + (1 - delay_alpha p) * avg_delay s\<rparr>"

text \<open>
  Modelled from the spec: section 4.B as run on every non-probe ACK: refine the base
  RTT, then update the filter with the raw delay of this ACK.
\<close>

definition delay_estimator :: "nscc_params \<Rightarrow> rat \<Rightarrow> bool \<Rightarrow> nscc \<Rightarrow> nscc" where
  "delay_estimator p raw_rtt ecn s =
     update_delay p ecn (raw_delay_of raw_rtt s) (refine_base_rtt p raw_rtt s)"

subsection \<open>The quadrant classifier and the window controller\<close>

text \<open>
  Modelled from the spec: the fast-increase qualification of section 4.C.1. An ACK
  qualifies for fast increase when its raw delay is under 1 microsecond and either the
  bytes of the run of such ACKs, this one included, exceed \<open>cwnd\<close> or the mode is
  already on.
\<close>

definition fast_increase_qualifies :: "rat \<Rightarrow> mem_b \<Rightarrow> nscc \<Rightarrow> bool" where
  "fast_increase_qualifies delay newly_acked_bytes s =
     (delay < 1000000 \<and> (fi_count s + newly_acked_bytes > cwnd s \<or> fast_mode s))"

text \<open>
  Modelled from the spec: the bookkeeping of the fast-increase qualification
  (section 4.C.1) for one ACK: a qualifying ACK adds its bytes to the counter and
  switches the mode on once the counter exceeds \<open>cwnd\<close>; any other ACK clears both.
\<close>

definition fast_increase_track :: "rat \<Rightarrow> mem_b \<Rightarrow> nscc \<Rightarrow> nscc" where
  "fast_increase_track delay newly_acked_bytes s =
     (if delay < 1000000
      then s\<lparr>fi_count := fi_count s + newly_acked_bytes,
             fast_mode := (fi_count s + newly_acked_bytes > cwnd s \<or> fast_mode s)\<rparr>
      else s\<lparr>fi_count := 0, fast_mode := False\<rparr>)"

text \<open>
  Modelled from the spec: the four quadrants, in the order in which the document lists
  the tests of \<open>updateCwndOnAck_NSCC\<close> (uec.cpp:1310-1335):
  \<^verbatim>\<open>
  if (!ecn && delay >= target) -> fair_increase
  if (!ecn && delay < target)  -> proportional_increase
  if (ecn  && delay >= target) -> multiplicative_decrease
  if (ecn  && delay < target)  -> NOOP
  \<close>
\<close>

definition quadrant_of :: "bool \<Rightarrow> rat \<Rightarrow> rat \<Rightarrow> quadrant" where
  "quadrant_of ecn delay target =
     (if \<not> ecn \<and> delay \<ge> target then FairIncrease
      else if \<not> ecn \<and> delay < target then ProportionalIncrease
      else if ecn \<and> delay \<ge> target then MultiplicativeDecrease
      else Noop)"

text \<open>
  Modelled from the spec: the classifier of section 4.C with its five actions. Fast
  increase is the empty-network special case of an increase: the rows for a marked ACK
  and for a delay at or above the target name their action without exception, so fast
  increase takes the place of proportional increase, in whose quadrant (no ECN, delay
  under the target) a qualifying ACK falls.
\<close>

definition classify :: "nscc_params \<Rightarrow> bool \<Rightarrow> rat \<Rightarrow> mem_b \<Rightarrow> nscc \<Rightarrow> quadrant" where
  "classify p ecn delay newly_acked_bytes s =
     (case quadrant_of ecn delay (target_Qdelay p) of
        ProportionalIncrease \<Rightarrow>
          (if fast_increase_qualifies delay newly_acked_bytes s then FastIncrease
           else ProportionalIncrease)
      | q \<Rightarrow> q)"

text \<open>
  Modelled from the spec: the window controller of section 4.D applying the selected
  action. Increases go to \<open>inc_bytes\<close>, fast increase and the decrease change
  \<open>cwnd\<close> at once, NOOP changes nothing. (\<open>QuickAdapt\<close> is not an output of the
  classifier.)
\<close>

fun window_action ::
  "nscc_params \<Rightarrow> rat \<Rightarrow> quadrant \<Rightarrow> rat \<Rightarrow> mem_b \<Rightarrow> nscc \<Rightarrow> nscc" where
  "window_action p now FairIncrease delay n s = fair_increase p n s"
| "window_action p now ProportionalIncrease delay n s = proportional_increase p n delay s"
| "window_action p now FastIncrease delay n s = fast_increase p n s"
| "window_action p now MultiplicativeDecrease delay n s = multiplicative_decrease p now s"
| "window_action p now Noop delay n s = s"
| "window_action p now QuickAdapt delay n s = s"

subsection \<open>Quick Adapt and the stale-feedback mask\<close>

text \<open>
  Modelled from the spec: the firing condition of Quick Adapt (section 4.E): something
  bad has happened (the trigger is set, a loss, or a raw delay above
  \<open>4 * target_Qdelay\<close>) and the flow achieved less than \<open>maxwnd >> qa_gate\<close> in the
  current evaluation window. The shift is the one of the integer \<open>maxwnd\<close>
  (\<open>drop_bit\<close>), which drops the bits shifted out.
\<close>

definition qa_fire_condition :: "nscc_params \<Rightarrow> bool \<Rightarrow> rat \<Rightarrow> nscc \<Rightarrow> bool" where
  "qa_fire_condition p is_loss delay s =
     ((trigger_qa s \<or> is_loss \<or> delay > 4 * target_Qdelay p)
      \<and> achieved_bytes s < drop_bit (qa_gate p) (maxwnd s))"

text \<open>
  Modelled from the spec: the evaluation interval of Quick Adapt,
  \<open>base_rtt + target_Qdelay\<close> since the timer was last reset.
\<close>

definition qa_interval_elapsed :: "nscc_params \<Rightarrow> rat \<Rightarrow> nscc \<Rightarrow> bool" where
  "qa_interval_elapsed p now s =
     (now - qa_last_eval_time s \<ge> base_rtt s + target_Qdelay p)"

text \<open>
  Modelled from the spec: when Quick Adapt is evaluated: at every interval, and
  opportunistically on a loss (NACK) or on a raw delay above \<open>qa_threshold\<close>.
\<close>

definition qa_evaluation_due :: "nscc_params \<Rightarrow> rat \<Rightarrow> bool \<Rightarrow> rat \<Rightarrow> nscc \<Rightarrow> bool" where
  "qa_evaluation_due p now is_loss delay s =
     (qa_interval_elapsed p now s \<or> is_loss \<or> delay > qa_threshold p)"

text \<open>
  Modelled from the spec: what a firing does: \<open>cwnd := max(achieved_bytes, min_cwnd)\<close>;
  \<open>bytes_to_ignore := in_flight\<close> and \<open>bytes_ignored := 0\<close> (the document quotes the
  two stores, uec.cpp:1185-1186); the interval timer is reset, which starts a new
  window of achieved bytes and consumes the trigger.
\<close>

definition qa_reset :: "nscc_params \<Rightarrow> rat \<Rightarrow> nscc \<Rightarrow> nscc" where
  "qa_reset p now s =
     s\<lparr>cwnd := max (achieved_bytes s) (min_cwnd p),
       bytes_to_ignore := in_flight s,
       bytes_ignored := 0,
       qa_last_eval_time := now,
       achieved_bytes := 0,
       trigger_qa := False\<rparr>"

text \<open>
  Modelled from the spec: whether this call of Quick Adapt fires (the value the
  sender's \<open>quick_adapt\<close> returns): an evaluation is due and its condition holds.
\<close>

definition qa_fires :: "nscc_params \<Rightarrow> rat \<Rightarrow> bool \<Rightarrow> rat \<Rightarrow> nscc \<Rightarrow> bool" where
  "qa_fires p now is_loss delay s =
     (qa_evaluation_due p now is_loss delay s \<and> qa_fire_condition p is_loss delay s)"

text \<open>
  Modelled from the spec: the effect of a call of Quick Adapt on the state. A due
  evaluation that fires resets the window; one that does not fire only starts the next
  window of achieved bytes when the interval has elapsed.
\<close>

definition quick_adapt :: "nscc_params \<Rightarrow> rat \<Rightarrow> bool \<Rightarrow> rat \<Rightarrow> nscc \<Rightarrow> nscc" where
  "quick_adapt p now is_loss delay s =
     (if qa_evaluation_due p now is_loss delay s
      then (if qa_fire_condition p is_loss delay s then qa_reset p now s
            else if qa_interval_elapsed p now s
                 then s\<lparr>achieved_bytes := 0, qa_last_eval_time := now\<rparr>
                 else s)
      else s)"

text \<open>
  Modelled from the spec: the stale-feedback mask is active while
  \<open>bytes_ignored < bytes_to_ignore\<close>.
\<close>

definition mask_active :: "nscc \<Rightarrow> bool" where
  "mask_active s = (bytes_ignored s < bytes_to_ignore s)"

subsection \<open>The feedback sink\<close>

text \<open>An acknowledgement as the feedback sink receives it (section 4.G).\<close>

record ack =
  ack_time :: rat
  ack_rtt :: rat
  ack_ecn :: bool
  ack_bytes :: mem_b
  ack_cum :: nat
  ack_in_order :: bool

text \<open>
  Modelled from the spec: the congestion-control update of an unmasked ACK, in the order
  of the document's walk through one ACK: the Quick Adapt check, which returns early when
  it fires; the quadrant decision and its action; the fulfill adjustment when it is due;
  the bounds clamp after every change of the window.
\<close>

definition updateCwndOnAck_NSCC ::
  "nscc_params \<Rightarrow> rat \<Rightarrow> bool \<Rightarrow> rat \<Rightarrow> mem_b \<Rightarrow> nscc \<Rightarrow> nscc" where
  "updateCwndOnAck_NSCC p now ecn delay newly_acked_bytes s =
     (if qa_fires p now False delay s
      then check_bounds p (quick_adapt p now False delay s)
      else
        (let s1 = quick_adapt p now False delay s;
             s2 = check_bounds p
                    (window_action p now (classify p ecn delay newly_acked_bytes s1)
                       delay newly_acked_bytes
                       (fast_increase_track delay newly_acked_bytes s1))
         in check_bounds p (fulfill_check p now s2)))"

text \<open>
  Modelled from the spec: the loss detector's part of an ACK (section 4.F): record the
  cumulative acknowledgement, count an ACK that is not the in-order successor, run
  SLEEK.
\<close>

definition sleek_on_ack :: "nscc_params \<Rightarrow> ack \<Rightarrow> nscc \<Rightarrow> nscc" where
  "sleek_on_ack p a s =
     (let ooo = (if ack_in_order a then out_of_order_count s
                 else Suc (out_of_order_count s))
      in runSleek p ooo (ack_cum a)
           (s\<lparr>cumulative_ack := ack_cum a, out_of_order_count := ooo\<rparr>))"

text \<open>
  Modelled from the spec: \<open>on_ack\<close> of section 4.G for a non-probe ACK. The delay
  estimator runs on every such ACK. While the mask is active the ACK only adds its bytes
  to \<open>bytes_ignored\<close>; otherwise its bytes are counted as received and achieved and the
  congestion-control update runs.
\<close>

definition on_ack :: "nscc_params \<Rightarrow> ack \<Rightarrow> nscc \<Rightarrow> nscc" where
  "on_ack p a s =
     (let d = raw_delay_of (ack_rtt a) s;
          s1 = delay_estimator p (ack_rtt a) (ack_ecn a) s;
          s2 = (if mask_active s1
                then s1\<lparr>bytes_ignored := bytes_ignored s1 + ack_bytes a\<rparr>
                else updateCwndOnAck_NSCC p (ack_time a) (ack_ecn a) d (ack_bytes a)
                       (s1\<lparr>achieved_bytes := achieved_bytes s1 + ack_bytes a,
                           received_bytes := received_bytes s1 + ack_bytes a\<rparr>))
      in sleek_on_ack p a s2)"

text \<open>
  Names for the points an ACK passes in \<open>on_ack\<close>, used to state what the handler does
  with it. \<open>accounted\<close> is the state after the delay estimator and the accounting of
  the ACK's bytes, the state the congestion-control update receives.
  \<open>qa_fires_on_ack\<close> says that the ACK is outside the mask and the Quick Adapt check
  fires on it, \<open>controller_runs\<close> that it is outside the mask and the check does not
  fire, so that the quadrant's action and the fulfill check run. \<open>before_fulfill\<close> is
  the state in which such an ACK reaches the fulfill check, and \<open>fulfill_fires\<close> says
  that the fulfill adjustment is performed for this ACK.
\<close>

definition accounted :: "nscc_params \<Rightarrow> ack \<Rightarrow> nscc \<Rightarrow> nscc" where
  "accounted p a s =
     (let s1 = delay_estimator p (ack_rtt a) (ack_ecn a) s
      in s1\<lparr>achieved_bytes := achieved_bytes s1 + ack_bytes a,
            received_bytes := received_bytes s1 + ack_bytes a\<rparr>)"

definition qa_fires_on_ack :: "nscc_params \<Rightarrow> ack \<Rightarrow> nscc \<Rightarrow> bool" where
  "qa_fires_on_ack p a s =
     (\<not> mask_active s
      \<and> qa_fires p (ack_time a) False (raw_delay_of (ack_rtt a) s) (accounted p a s))"

definition controller_runs :: "nscc_params \<Rightarrow> ack \<Rightarrow> nscc \<Rightarrow> bool" where
  "controller_runs p a s =
     (\<not> mask_active s
      \<and> \<not> qa_fires p (ack_time a) False (raw_delay_of (ack_rtt a) s) (accounted p a s))"

definition before_fulfill :: "nscc_params \<Rightarrow> ack \<Rightarrow> nscc \<Rightarrow> nscc" where
  "before_fulfill p a s =
     (let d = raw_delay_of (ack_rtt a) s;
          s1 = quick_adapt p (ack_time a) False d (accounted p a s)
      in check_bounds p
           (window_action p (ack_time a) (classify p (ack_ecn a) d (ack_bytes a) s1)
              d (ack_bytes a) (fast_increase_track d (ack_bytes a) s1)))"

definition fulfill_fires :: "nscc_params \<Rightarrow> ack \<Rightarrow> nscc \<Rightarrow> bool" where
  "fulfill_fires p a s =
     (controller_runs p a s \<and> fulfill_due p (ack_time a) (before_fulfill p a s))"

text \<open>
  Modelled from the spec: \<open>on_nack\<close> of section 4.G: feed the base-RTT rule when the
  flag is set, set the Quick Adapt trigger, evaluate Quick Adapt as on a loss, clamp.
\<close>

definition on_nack :: "nscc_params \<Rightarrow> rat \<Rightarrow> rat \<Rightarrow> nscc \<Rightarrow> nscc" where
  "on_nack p now raw_rtt s =
     (let d = raw_delay_of raw_rtt s;
          s1 = (if update_base_rtt_on_nack p then refine_base_rtt p raw_rtt s else s);
          s2 = s1\<lparr>trigger_qa := True\<rparr>
      in check_bounds p (quick_adapt p now True d s2))"

text \<open>
  Modelled from the spec: \<open>on_probe_ack\<close>: a probe that returns with a raw delay under
  the target shows the pipe has drained, so the packets still missing behind it are
  queued for retransmission.
\<close>

definition on_probe_ack :: "nscc_params \<Rightarrow> rat \<Rightarrow> nat \<Rightarrow> nscc \<Rightarrow> nscc" where
  "on_probe_ack p raw_rtt probe_seqno s =
     (if raw_delay_of raw_rtt s < target_Qdelay p
      then s\<lparr>rtx_queue := rtx_queue s @
                filter (\<lambda>q. q < probe_seqno \<and> q \<notin> set (rtx_queue s)) (unacked s)\<rparr>
      else s)"

text \<open>Modelled from the spec: \<open>on_timeout\<close> sets the Quick Adapt trigger.\<close>

definition on_timeout :: "nscc \<Rightarrow> nscc" where
  "on_timeout s = s\<lparr>trigger_qa := True\<rparr>"

text \<open>
  Modelled from the spec: the events of a flow and the handler each one runs. The last
  one is a Quick Adapt evaluation on its own (with the loss flag and delay it is given),
  followed by the clamp.
\<close>

datatype event =
    Ack ack
  | Nack rat rat
  | ProbeAck rat nat
  | Timeout
  | QuickAdaptEval rat bool rat

fun handle :: "nscc_params \<Rightarrow> event \<Rightarrow> nscc \<Rightarrow> nscc" where
  "handle p (Ack a) s = on_ack p a s"
| "handle p (Nack now raw_rtt) s = on_nack p now raw_rtt s"
| "handle p (ProbeAck raw_rtt probe_seqno) s = on_probe_ack p raw_rtt probe_seqno s"
| "handle p Timeout s = on_timeout s"
| "handle p (QuickAdaptEval now is_loss delay) s = check_bounds p (quick_adapt p now is_loss delay s)"


text \<open>Modelled from the spec: a stream of ACKs processed in arrival order.\<close>

fun run_acks :: "nscc_params \<Rightarrow> ack list \<Rightarrow> nscc \<Rightarrow> nscc" where
  "run_acks p [] s = s"
| "run_acks p (a # as) s = run_acks p as (on_ack p a s)"


text \<open>
  What the two tests of the bounds clamp establish whatever the ceiling is: the window
  is at most \<open>maxwnd\<close>, and at least \<open>min_cwnd\<close> when \<open>min_cwnd\<close> does not exceed
  \<open>maxwnd\<close>.
\<close>

definition window_clamped :: "nscc_params \<Rightarrow> nscc \<Rightarrow> bool" where
  "window_clamped p s =
     (cwnd s \<le> maxwnd s \<and> (min_cwnd p \<le> maxwnd s \<longrightarrow> min_cwnd p \<le> cwnd s))"


text \<open>An ACK of one 4096-byte packet, in order, for the scenarios.\<close>

definition scenario_ack :: "rat \<Rightarrow> rat \<Rightarrow> bool \<Rightarrow> ack" where
  "scenario_ack now raw_rtt ecn =
     \<lparr>ack_time = now, ack_rtt = raw_rtt, ack_ecn = ecn, ack_bytes = 4096,
      ack_cum = 0, ack_in_order = True\<rparr>"

section \<open>The sender's calls of the trace logger\<close>

text \<open>
  Modelled from the spec: the places where the sender calls the logger. They are in the
  sender's implementation file, which is not among the sources; the header of the logger
  says that it records one row per fulfill period and flow, and the specification's
  trace sink is one record per fulfill adjustment and a separate record type for Quick
  Adapt firings. \<open>trace_ctx\<close> holds what the sender passes besides its congestion
  state: the flow id and the six per-action byte accumulators, which are counters of the
  sender's instrumentation and are taken as they are. A time of the sender is passed as
  whole picoseconds.
\<close>

record trace_ctx =
  tr_flow :: flowid_t
  tr_inc_fair :: mem_b
  tr_inc_prop :: mem_b
  tr_inc_fast :: mem_b
  tr_inc_eta :: mem_b
  tr_dec_multi :: mem_b
  tr_dec_quick :: mem_b

definition picosec :: "rat \<Rightarrow> simtime_picosec" where
  "picosec t = nat \<lfloor>t\<rfloor>"

text \<open>
  Modelled from the spec: the record of a fulfill adjustment: the time, the flow, the
  window, the bytes in flight, \<open>bdp\<close>, \<open>maxwnd\<close>, the filtered delay, the raw delay of
  the ACK, the target, the base RTT, the ECN bit of the ACK, the code of the quadrant
  chosen for it, and the accumulators, written by \<open>logSample\<close>.
\<close>

definition log_fulfill ::
  "trace_ctx \<Rightarrow> nscc_params \<Rightarrow> rat \<Rightarrow> bool \<Rightarrow> rat \<Rightarrow> quadrant \<Rightarrow> nscc \<Rightarrow>
   NsccTraceLogger \<Rightarrow> NsccTraceLogger" where
  "log_fulfill tr p now ecn delay q s lg =
     logSample (picosec now) (tr_flow tr) (cwnd s) (in_flight s) (bdp s) (maxwnd s)
       (picosec (avg_delay s)) (picosec delay) (picosec (target_Qdelay p)) (picosec (base_rtt s))
       ecn (quadrant_code q)
       (tr_inc_fair tr) (tr_inc_prop tr) (tr_inc_fast tr) (tr_inc_eta tr)
       (tr_dec_multi tr) (tr_dec_quick tr) lg"

text \<open>
  Modelled from the spec: the record of a Quick Adapt firing, written by \<open>logQAEvent\<close>:
  the window before and after the reset, the bytes achieved in the evaluation window
  and the bytes in flight.
\<close>

definition log_quick_adapt ::
  "trace_ctx \<Rightarrow> rat \<Rightarrow> nscc \<Rightarrow> nscc \<Rightarrow> NsccTraceLogger \<Rightarrow> NsccTraceLogger" where
  "log_quick_adapt tr now before after lg =
     logQAEvent (picosec now) (tr_flow tr) (cwnd before) (cwnd after) (achieved_bytes before)
       (in_flight before) lg"

text \<open>
  Modelled from the spec: the handlers with the logger threaded through them. Each is
  the handler of the same name with the two calls added: a Quick Adapt evaluation that
  fires logs the firing, and a fulfill adjustment logs its record once the window has
  been adjusted and clamped.
\<close>

definition quick_adapt_traced ::
  "trace_ctx \<Rightarrow> nscc_params \<Rightarrow> rat \<Rightarrow> bool \<Rightarrow> rat \<Rightarrow> nscc \<Rightarrow> NsccTraceLogger \<Rightarrow>
   nscc \<times> NsccTraceLogger" where
  "quick_adapt_traced tr p now is_loss delay s lg =
     (let s1 = check_bounds p (quick_adapt p now is_loss delay s)
      in (s1, if qa_fires p now is_loss delay s then log_quick_adapt tr now s s1 lg else lg))"

definition updateCwndOnAck_NSCC_traced ::
  "trace_ctx \<Rightarrow> nscc_params \<Rightarrow> rat \<Rightarrow> bool \<Rightarrow> rat \<Rightarrow> mem_b \<Rightarrow> nscc \<Rightarrow> NsccTraceLogger \<Rightarrow>
   nscc \<times> NsccTraceLogger" where
  "updateCwndOnAck_NSCC_traced tr p now ecn delay newly_acked_bytes s lg =
     (if qa_fires p now False delay s
      then quick_adapt_traced tr p now False delay s lg
      else
        (let s1 = quick_adapt p now False delay s;
             q = classify p ecn delay newly_acked_bytes s1;
             s2 = check_bounds p
                    (window_action p now q delay newly_acked_bytes
                       (fast_increase_track delay newly_acked_bytes s1))
         in if fulfill_due p now s2
            then (let s3 = check_bounds p (fulfill_adjustment p now s2)
                  in (s3, log_fulfill tr p now ecn delay q s3 lg))
            else (check_bounds p s2, lg)))"

definition on_ack_traced ::
  "trace_ctx \<Rightarrow> nscc_params \<Rightarrow> ack \<Rightarrow> nscc \<Rightarrow> NsccTraceLogger \<Rightarrow> nscc \<times> NsccTraceLogger" where
  "on_ack_traced tr p a s lg =
     (let d = raw_delay_of (ack_rtt a) s;
          s1 = delay_estimator p (ack_rtt a) (ack_ecn a) s
      in if mask_active s1
         then (sleek_on_ack p a (s1\<lparr>bytes_ignored := bytes_ignored s1 + ack_bytes a\<rparr>), lg)
         else (let r = updateCwndOnAck_NSCC_traced tr p (ack_time a) (ack_ecn a) d (ack_bytes a)
                         (s1\<lparr>achieved_bytes := achieved_bytes s1 + ack_bytes a,
                             received_bytes := received_bytes s1 + ack_bytes a\<rparr>) lg
               in (sleek_on_ack p a (fst r), snd r)))"

definition on_nack_traced ::
  "trace_ctx \<Rightarrow> nscc_params \<Rightarrow> rat \<Rightarrow> rat \<Rightarrow> nscc \<Rightarrow> NsccTraceLogger \<Rightarrow>
   nscc \<times> NsccTraceLogger" where
  "on_nack_traced tr p now raw_rtt s lg =
     (let d = raw_delay_of raw_rtt s;
          s1 = (if update_base_rtt_on_nack p then refine_base_rtt p raw_rtt s else s);
          s2 = s1\<lparr>trigger_qa := True\<rparr>
      in quick_adapt_traced tr p now True d s2 lg)"

fun handle_traced ::
  "trace_ctx \<Rightarrow> nscc_params \<Rightarrow> event \<Rightarrow> nscc \<Rightarrow> NsccTraceLogger \<Rightarrow> nscc \<times> NsccTraceLogger" where
  "handle_traced tr p (Ack a) s lg = on_ack_traced tr p a s lg"
| "handle_traced tr p (Nack now raw_rtt) s lg = on_nack_traced tr p now raw_rtt s lg"
| "handle_traced tr p (ProbeAck raw_rtt probe_seqno) s lg = (on_probe_ack p raw_rtt probe_seqno s, lg)"
| "handle_traced tr p Timeout s lg = (on_timeout s, lg)"
| "handle_traced tr p (QuickAdaptEval now is_loss delay) s lg =
     quick_adapt_traced tr p now is_loss delay s lg"

text \<open>
  Whether the handling of an event performs a fulfill adjustment, and whether Quick
  Adapt fires in it; \<open>quadrant_on_ack\<close> is the quadrant the classifier chooses for an
  ACK on which the window controller runs.
\<close>

fun fulfills :: "nscc_params \<Rightarrow> event \<Rightarrow> nscc \<Rightarrow> bool" where
  "fulfills p (Ack a) s = fulfill_fires p a s"
| "fulfills p (Nack now raw_rtt) s = False"
| "fulfills p (ProbeAck raw_rtt probe_seqno) s = False"
| "fulfills p Timeout s = False"
| "fulfills p (QuickAdaptEval now is_loss delay) s = False"

fun quick_adapts :: "nscc_params \<Rightarrow> event \<Rightarrow> nscc \<Rightarrow> bool" where
  "quick_adapts p (Ack a) s = qa_fires_on_ack p a s"
| "quick_adapts p (Nack now raw_rtt) s =
     qa_fires p now True (raw_delay_of raw_rtt s)
       ((if update_base_rtt_on_nack p then refine_base_rtt p raw_rtt s else s)\<lparr>trigger_qa := True\<rparr>)"
| "quick_adapts p (ProbeAck raw_rtt probe_seqno) s = False"
| "quick_adapts p Timeout s = False"
| "quick_adapts p (QuickAdaptEval now is_loss delay) s = qa_fires p now is_loss delay s"

definition quadrant_on_ack :: "nscc_params \<Rightarrow> ack \<Rightarrow> nscc \<Rightarrow> quadrant" where
  "quadrant_on_ack p a s =
     classify p (ack_ecn a) (raw_delay_of (ack_rtt a) s) (ack_bytes a)
       (quick_adapt p (ack_time a) False (raw_delay_of (ack_rtt a) s) (accounted p a s))"

text \<open>
  A run of events with the logger threaded through it; each event comes with the
  context the sender passes when it logs.
\<close>

fun run_traced ::
  "nscc_params \<Rightarrow> (trace_ctx \<times> event) list \<Rightarrow> nscc \<Rightarrow> NsccTraceLogger \<Rightarrow>
   nscc \<times> NsccTraceLogger" where
  "run_traced p [] s lg = (s, lg)"
| "run_traced p (te # tes) s lg =
     run_traced p tes (fst (handle_traced (fst te) p (snd te) s lg))
       (snd (handle_traced (fst te) p (snd te) s lg))"

text \<open>The number of events of a run at which a record is due, of either kind.\<close>

fun records_due :: "nscc_params \<Rightarrow> event list \<Rightarrow> nscc \<Rightarrow> nat" where
  "records_due p [] s = 0"
| "records_due p (ev # evs) s =
     (if fulfills p ev s \<or> quick_adapts p ev s then 1 else 0) + records_due p evs (handle p ev s)"

section \<open>Properties of the trace logger\<close>

lemma perform_closed: "\<not> is_open lg \<Longrightarrow> perform c lg = lg"
  by (cases c) (simp_all add: logSample_def logQAEvent_def)

lemma perform_all_closed: "\<not> is_open lg \<Longrightarrow> perform_all cs lg = lg"
  by (induction cs arbitrary: lg) (simp_all add: perform_closed)

text \<open>
  C10. A logger constructed on a path that cannot be opened: the constructor returns
  normally, leaves the stream closed (\<open>is_open\<close> is false), writes nothing to the file
  and only adds its one-line report to the standard error stream; every later run of
  \<open>logSample\<close> and \<open>logQAEvent\<close> calls returns the logger exactly as it was, so nothing is
  written and no state changes.
\<close>

theorem unopenable_logger_is_inert:
  assumes "\<not> can_open filepath"
  shows "\<not> is_open (fst (NsccTraceLogger_new can_open filepath cerr))
       \<and> file_rows (fst (NsccTraceLogger_new can_open filepath cerr)) = []
       \<and> snd (NsccTraceLogger_new can_open filepath cerr)
           = cerr @ [''NsccTraceLogger: failed to open '' @ filepath]
       \<and> perform_all calls (fst (NsccTraceLogger_new can_open filepath cerr))
           = fst (NsccTraceLogger_new can_open filepath cerr)"
proof -
  let ?lg = "fst (NsccTraceLogger_new can_open filepath cerr)"
  have closed: "\<not> is_open ?lg"
    using assms by (simp add: NsccTraceLogger_new_def is_open_def)
  have "perform_all calls ?lg = ?lg"
    using closed by (rule perform_all_closed)
  with closed assms show ?thesis
    by (simp add: NsccTraceLogger_new_def)
qed

theorem unopenable_logger_is_inert_witness:
  "\<not> (\<lambda>p. p = ''trace.csv'') ''/missing/trace.csv''
   \<and> \<not> is_open (fst (NsccTraceLogger_new (\<lambda>p. p = ''trace.csv'') ''/missing/trace.csv'' []))
   \<and> snd (NsccTraceLogger_new (\<lambda>p. p = ''trace.csv'') ''/missing/trace.csv'' [])
       = [''NsccTraceLogger: failed to open /missing/trace.csv'']
   \<and> file_rows (perform_all
        [LogSample 1000000 7 4096 0 150000 225000 0 0 9000000 12000000 False 1 0 0 0 0 0 0,
         LogQAEvent 2000000 7 225000 4096 1024 200000]
        (fst (NsccTraceLogger_new (\<lambda>p. p = ''trace.csv'') ''/missing/trace.csv'' []))) = []"
  using unopenable_logger_is_inert [of "\<lambda>p. p = ''trace.csv''" "''/missing/trace.csv''" "[]"
      "[LogSample 1000000 7 4096 0 150000 225000 0 0 9000000 12000000 False 1 0 0 0 0 0 0,
        LogQAEvent 2000000 7 225000 4096 1024 200000]"]
  by simp

section \<open>Properties of the sender core\<close>

subsection \<open>The conversion to a byte count\<close>

lemma mem_b_of_of_int [simp]: "mem_b_of (of_int k) = k"
  by (simp add: mem_b_of_def)

lemma mem_b_of_numeral [simp]:
  "mem_b_of 0 = 0" "mem_b_of 1 = 1" "mem_b_of (numeral n) = numeral n"
  by (simp_all add: mem_b_of_def)

lemma mem_b_of_fraction [simp]:
  "mem_b_of (numeral a / numeral b) = numeral a div numeral b"
proof -
  have "\<lfloor>numeral a / numeral b :: rat\<rfloor> = numeral a div numeral b"
    using floor_divide_of_int_eq [of "numeral a" "numeral b", where ?'a = rat]
    by (simp only: of_int_numeral)
  moreover have "(0::rat) \<le> numeral a / numeral b" by simp
  ultimately show ?thesis by (simp only: mem_b_of_def if_True)
qed



lemma mem_b_of_add_int: "0 \<le> x \<Longrightarrow> 0 \<le> k \<Longrightarrow> mem_b_of (of_int k + x) = k + \<lfloor>x\<rfloor>"
  by (simp add: mem_b_of_def)

subsection \<open>What each stage leaves unchanged\<close>

lemma check_bounds_eq:
  "check_bounds p s = s\<lparr>cwnd := min (maxwnd s) (max (min_cwnd p) (cwnd s))\<rparr>"
  by (simp add: check_bounds_def Let_def min_def max_def)

lemma fulfill_adjustment_eq:
  "fulfill_adjustment p now s =
     s\<lparr>cwnd := mem_b_of (of_int (cwnd s + inc_bytes s sdiv cwnd s) + eta p), inc_bytes := 0,
       received_bytes := 0, last_adjust_time := now\<rparr>"
  by (simp add: fulfill_adjustment_def Let_def)

lemma window_action_static [simp]:
  "base_rtt (window_action p now q d n s) = base_rtt s"
  "bdp (window_action p now q d n s) = bdp s"
  "maxwnd (window_action p now q d n s) = maxwnd s"
  "avg_delay (window_action p now q d n s) = avg_delay s"
  "bytes_ignored (window_action p now q d n s) = bytes_ignored s"
  "bytes_to_ignore (window_action p now q d n s) = bytes_to_ignore s"
  by (cases q; simp add: fair_increase_def proportional_increase_def fast_increase_def
        multiplicative_decrease_def)+

lemma quick_adapt_static [simp]:
  "base_rtt (quick_adapt p now l d s) = base_rtt s"
  "bdp (quick_adapt p now l d s) = bdp s"
  "maxwnd (quick_adapt p now l d s) = maxwnd s"
  "avg_delay (quick_adapt p now l d s) = avg_delay s"
  by (simp_all add: quick_adapt_def qa_reset_def)

lemma fulfill_check_static [simp]:
  "base_rtt (fulfill_check p now s) = base_rtt s"
  "bdp (fulfill_check p now s) = bdp s"
  "maxwnd (fulfill_check p now s) = maxwnd s"
  "avg_delay (fulfill_check p now s) = avg_delay s"
  by (simp_all add: fulfill_check_def fulfill_adjustment_eq)

lemma fast_increase_track_static [simp]:
  "base_rtt (fast_increase_track d n s) = base_rtt s"
  "bdp (fast_increase_track d n s) = bdp s"
  "maxwnd (fast_increase_track d n s) = maxwnd s"
  "avg_delay (fast_increase_track d n s) = avg_delay s"
  "cwnd (fast_increase_track d n s) = cwnd s"
  by (simp_all add: fast_increase_track_def)

lemma updateCwndOnAck_NSCC_static [simp]:
  "base_rtt (updateCwndOnAck_NSCC p now e d n s) = base_rtt s"
  "bdp (updateCwndOnAck_NSCC p now e d n s) = bdp s"
  "maxwnd (updateCwndOnAck_NSCC p now e d n s) = maxwnd s"
  "avg_delay (updateCwndOnAck_NSCC p now e d n s) = avg_delay s"
  by (simp_all add: updateCwndOnAck_NSCC_def check_bounds_eq Let_def)

lemma runSleek_static [simp]:
  "base_rtt (runSleek p ooo c s) = base_rtt s"
  "bdp (runSleek p ooo c s) = bdp s"
  "maxwnd (runSleek p ooo c s) = maxwnd s"
  "avg_delay (runSleek p ooo c s) = avg_delay s"
  "cwnd (runSleek p ooo c s) = cwnd s"
  "inc_bytes (runSleek p ooo c s) = inc_bytes s"
  "bytes_ignored (runSleek p ooo c s) = bytes_ignored s"
  "bytes_to_ignore (runSleek p ooo c s) = bytes_to_ignore s"
  by (simp_all add: runSleek_def sleek_exit_def sleek_enter_def Let_def)

lemma sleek_on_ack_static [simp]:
  "base_rtt (sleek_on_ack p a s) = base_rtt s"
  "bdp (sleek_on_ack p a s) = bdp s"
  "maxwnd (sleek_on_ack p a s) = maxwnd s"
  "avg_delay (sleek_on_ack p a s) = avg_delay s"
  "cwnd (sleek_on_ack p a s) = cwnd s"
  "inc_bytes (sleek_on_ack p a s) = inc_bytes s"
  "bytes_ignored (sleek_on_ack p a s) = bytes_ignored s"
  "bytes_to_ignore (sleek_on_ack p a s) = bytes_to_ignore s"
  by (simp_all add: sleek_on_ack_def Let_def)

lemma refine_base_rtt_static [simp]:
  "base_rtt (refine_base_rtt p r s) = min (base_rtt s) r"
  "avg_delay (refine_base_rtt p r s) = avg_delay s"
  "bytes_ignored (refine_base_rtt p r s) = bytes_ignored s"
  "bytes_to_ignore (refine_base_rtt p r s) = bytes_to_ignore s"
  by (simp_all add: refine_base_rtt_def update_base_rtt_def check_bounds_eq Let_def)

lemma delay_estimator_static [simp]:
  "base_rtt (delay_estimator p r e s) = min (base_rtt s) r"
  "bdp (delay_estimator p r e s) = bdp (refine_base_rtt p r s)"
  "maxwnd (delay_estimator p r e s) = maxwnd (refine_base_rtt p r s)"
  "cwnd (delay_estimator p r e s) = cwnd (refine_base_rtt p r s)"
  "bytes_ignored (delay_estimator p r e s) = bytes_ignored s"
  "bytes_to_ignore (delay_estimator p r e s) = bytes_to_ignore s"
  by (simp_all add: delay_estimator_def update_delay_def)

lemma on_ack_base_rtt: "base_rtt (on_ack p a s) = min (base_rtt s) (ack_rtt a)"
  by (simp add: on_ack_def Let_def)


lemma runSleek_controller [simp]:
  "last_dec_time (runSleek p ooo c s) = last_dec_time s"
  "fi_count (runSleek p ooo c s) = fi_count s"
  "fast_mode (runSleek p ooo c s) = fast_mode s"
  "received_bytes (runSleek p ooo c s) = received_bytes s"
  "last_adjust_time (runSleek p ooo c s) = last_adjust_time s"
  "highest_sent (runSleek p ooo c s) = highest_sent s"
  by (simp_all add: runSleek_def sleek_exit_def sleek_enter_def Let_def)

lemma sleek_on_ack_controller [simp]:
  "last_dec_time (sleek_on_ack p a s) = last_dec_time s"
  "fi_count (sleek_on_ack p a s) = fi_count s"
  "fast_mode (sleek_on_ack p a s) = fast_mode s"
  "received_bytes (sleek_on_ack p a s) = received_bytes s"
  "last_adjust_time (sleek_on_ack p a s) = last_adjust_time s"
  "highest_sent (sleek_on_ack p a s) = highest_sent s"
  by (simp_all add: sleek_on_ack_def Let_def)

lemma refine_base_rtt_controller [simp]:
  "inc_bytes (refine_base_rtt p r s) = inc_bytes s"
  "last_dec_time (refine_base_rtt p r s) = last_dec_time s"
  "fi_count (refine_base_rtt p r s) = fi_count s"
  "fast_mode (refine_base_rtt p r s) = fast_mode s"
  "received_bytes (refine_base_rtt p r s) = received_bytes s"
  "last_adjust_time (refine_base_rtt p r s) = last_adjust_time s"
  by (simp_all add: refine_base_rtt_def update_base_rtt_def check_bounds_eq Let_def)

lemma delay_estimator_controller [simp]:
  "inc_bytes (delay_estimator p r e s) = inc_bytes s"
  "last_dec_time (delay_estimator p r e s) = last_dec_time s"
  "fi_count (delay_estimator p r e s) = fi_count s"
  "fast_mode (delay_estimator p r e s) = fast_mode s"
  "received_bytes (delay_estimator p r e s) = received_bytes s"
  "last_adjust_time (delay_estimator p r e s) = last_adjust_time s"
  by (simp_all add: delay_estimator_def update_delay_def)

lemma on_ack_masked_eq:
  "mask_active s \<Longrightarrow>
   on_ack p a s = sleek_on_ack p a
     ((delay_estimator p (ack_rtt a) (ack_ecn a) s)\<lparr>bytes_ignored := bytes_ignored s + ack_bytes a\<rparr>)"
  by (simp add: on_ack_def Let_def mask_active_def)

lemma on_ack_masked:
  assumes "mask_active s"
  shows "bytes_ignored (on_ack p a s) = bytes_ignored s + ack_bytes a"
    and "bytes_to_ignore (on_ack p a s) = bytes_to_ignore s"
    and "inc_bytes (on_ack p a s) = inc_bytes s"
    and "last_dec_time (on_ack p a s) = last_dec_time s"
    and "fi_count (on_ack p a s) = fi_count s"
    and "fast_mode (on_ack p a s) = fast_mode s"
    and "received_bytes (on_ack p a s) = received_bytes s"
    and "last_adjust_time (on_ack p a s) = last_adjust_time s"
    and "cwnd (on_ack p a s) = cwnd (refine_base_rtt p (ack_rtt a) s)"
  by (simp_all add: on_ack_masked_eq [OF assms])







lemma check_bounds_capped: "cwnd (check_bounds p s) \<le> maxwnd (check_bounds p s)"
  by (simp add: check_bounds_eq)

lemma check_bounds_floored:
  "min_cwnd p \<le> maxwnd s \<Longrightarrow> min_cwnd p \<le> cwnd (check_bounds p s)"
  by (simp add: check_bounds_eq)

lemma check_bounds_clamped [simp]: "window_clamped p (check_bounds p s)"
  by (simp add: window_clamped_def check_bounds_eq)


lemma window_clamped_cong:
  "cwnd s' = cwnd s \<Longrightarrow> maxwnd s' = maxwnd s \<Longrightarrow> window_clamped p s' = window_clamped p s"
  by (simp add: window_clamped_def)

lemma updateCwndOnAck_NSCC_clamped [simp]:
  "window_clamped p (updateCwndOnAck_NSCC p now e d n s)"
  by (simp add: updateCwndOnAck_NSCC_def Let_def)






lemmas scenario_defs =
  scenario_flow_def initNscc_def scenario_params_def initNsccParams_def timeAsSec_def
  reference_network_bdp_def scenario_ack_def

lemma run_acks_masked:
  assumes "\<forall>k<length as. bytes_ignored s + sum_list (map ack_bytes (take k as)) < bytes_to_ignore s"
  shows "bytes_ignored (run_acks p as s) = bytes_ignored s + sum_list (map ack_bytes as)
       \<and> bytes_to_ignore (run_acks p as s) = bytes_to_ignore s
       \<and> inc_bytes (run_acks p as s) = inc_bytes s
       \<and> last_dec_time (run_acks p as s) = last_dec_time s
       \<and> fi_count (run_acks p as s) = fi_count s
       \<and> fast_mode (run_acks p as s) = fast_mode s
       \<and> received_bytes (run_acks p as s) = received_bytes s
       \<and> last_adjust_time (run_acks p as s) = last_adjust_time s"
  using assms
proof (induction as arbitrary: s)
  case Nil
  show ?case by simp
next
  case (Cons a as)
  from Cons.prems have "bytes_ignored s + sum_list (map ack_bytes (take 0 (a # as))) < bytes_to_ignore s"
    by blast
  then have m: "mask_active s" by (simp add: mask_active_def)
  have "\<forall>k<length as. bytes_ignored (on_ack p a s) + sum_list (map ack_bytes (take k as))
          < bytes_to_ignore (on_ack p a s)"
  proof (intro allI impI)
    fix k assume "k < length as"
    then have "Suc k < length (a # as)" by simp
    with Cons.prems have "bytes_ignored s + sum_list (map ack_bytes (take (Suc k) (a # as)))
        < bytes_to_ignore s" by blast
    then show "bytes_ignored (on_ack p a s) + sum_list (map ack_bytes (take k as))
          < bytes_to_ignore (on_ack p a s)"
      by (simp add: on_ack_masked [OF m] add.assoc)
  qed
  from Cons.IH [OF this] show ?case
    by (simp add: on_ack_masked [OF m] add.assoc)
qed

lemma run_acks_masked_cwnd:
  assumes "\<forall>k<length as. bytes_ignored s + sum_list (map ack_bytes (take k as)) < bytes_to_ignore s"
    and "\<forall>a\<in>set as. base_rtt s \<le> ack_rtt a"
  shows "cwnd (run_acks p as s) = cwnd s"
  using assms
proof (induction as arbitrary: s)
  case Nil
  show ?case by simp
next
  case (Cons a as)
  from Cons.prems(1) have "bytes_ignored s + sum_list (map ack_bytes (take 0 (a # as))) < bytes_to_ignore s"
    by blast
  then have m: "mask_active s" by (simp add: mask_active_def)
  from Cons.prems(2) have ge: "base_rtt s \<le> ack_rtt a" by simp
  have step: "cwnd (on_ack p a s) = cwnd s"
    using ge by (simp add: on_ack_masked [OF m] refine_base_rtt_def)
  have base: "base_rtt (on_ack p a s) = base_rtt s"
    using ge by (simp add: on_ack_base_rtt)
  have 1: "\<forall>k<length as. bytes_ignored (on_ack p a s) + sum_list (map ack_bytes (take k as))
          < bytes_to_ignore (on_ack p a s)"
  proof (intro allI impI)
    fix k assume "k < length as"
    then have "Suc k < length (a # as)" by simp
    with Cons.prems(1) have "bytes_ignored s + sum_list (map ack_bytes (take (Suc k) (a # as)))
        < bytes_to_ignore s" by blast
    then show "bytes_ignored (on_ack p a s) + sum_list (map ack_bytes (take k as))
          < bytes_to_ignore (on_ack p a s)"
      by (simp add: on_ack_masked [OF m] add.assoc)
  qed
  have 2: "\<forall>b\<in>set as. base_rtt (on_ack p a s) \<le> ack_rtt b"
    using Cons.prems(2) base by simp
  from Cons.IH [OF 1 2] step show ?case by simp
qed

lemma on_ack_unmasked_eq:
  "\<not> mask_active s \<Longrightarrow>
   on_ack p a s = sleek_on_ack p a
     (updateCwndOnAck_NSCC p (ack_time a) (ack_ecn a) (raw_delay_of (ack_rtt a) s) (ack_bytes a)
        ((delay_estimator p (ack_rtt a) (ack_ecn a) s)
           \<lparr>achieved_bytes := achieved_bytes (delay_estimator p (ack_rtt a) (ack_ecn a) s) + ack_bytes a,
            received_bytes := received_bytes s + ack_bytes a\<rparr>))"
  by (simp add: on_ack_def Let_def mask_active_def)

subsection \<open>The points an ACK passes in the handler\<close>

lemma accounted_fields [simp]:
  "received_bytes (accounted p a s) = received_bytes s + ack_bytes a"
  "last_adjust_time (accounted p a s) = last_adjust_time s"
  "inc_bytes (accounted p a s) = inc_bytes s"
  "base_rtt (accounted p a s) = min (base_rtt s) (ack_rtt a)"
  "bytes_ignored (accounted p a s) = bytes_ignored s"
  "bytes_to_ignore (accounted p a s) = bytes_to_ignore s"
  by (simp_all add: accounted_def Let_def)

lemma quick_adapt_fulfill_fields [simp]:
  "received_bytes (quick_adapt p now l d s) = received_bytes s"
  "last_adjust_time (quick_adapt p now l d s) = last_adjust_time s"
  "inc_bytes (quick_adapt p now l d s) = inc_bytes s"
  by (simp_all add: quick_adapt_def qa_reset_def)

lemma window_action_fulfill_fields [simp]:
  "received_bytes (window_action p now q d n s) = received_bytes s"
  "last_adjust_time (window_action p now q d n s) = last_adjust_time s"
  by (cases q; simp add: fair_increase_def proportional_increase_def fast_increase_def
        multiplicative_decrease_def)+

lemma fast_increase_track_fulfill_fields [simp]:
  "received_bytes (fast_increase_track d n s) = received_bytes s"
  "last_adjust_time (fast_increase_track d n s) = last_adjust_time s"
  "inc_bytes (fast_increase_track d n s) = inc_bytes s"
  by (simp_all add: fast_increase_track_def)

lemma before_fulfill_fields [simp]:
  "received_bytes (before_fulfill p a s) = received_bytes s + ack_bytes a"
  "last_adjust_time (before_fulfill p a s) = last_adjust_time s"
  by (simp_all add: before_fulfill_def Let_def check_bounds_eq)

lemma on_ack_controller_runs:
  assumes "controller_runs p a s"
  shows "on_ack p a s
           = sleek_on_ack p a (check_bounds p (fulfill_check p (ack_time a) (before_fulfill p a s)))"
  using assms
  by (simp add: controller_runs_def on_ack_unmasked_eq updateCwndOnAck_NSCC_def before_fulfill_def
        accounted_def Let_def)

lemma on_ack_qa_fires:
  assumes "qa_fires_on_ack p a s"
  shows "on_ack p a s
           = sleek_on_ack p a (check_bounds p
               (quick_adapt p (ack_time a) False (raw_delay_of (ack_rtt a) s) (accounted p a s)))"
  using assms
  by (simp add: qa_fires_on_ack_def on_ack_unmasked_eq updateCwndOnAck_NSCC_def accounted_def Let_def)

lemma on_ack_cases:
  "mask_active s \<or> qa_fires_on_ack p a s \<or> controller_runs p a s"
  by (auto simp add: qa_fires_on_ack_def controller_runs_def)

lemma on_ack_no_fulfill:
  assumes "\<not> fulfill_fires p a s"
  shows "last_adjust_time (on_ack p a s) = last_adjust_time s"
    and "controller_runs p a s \<Longrightarrow> on_ack p a s = sleek_on_ack p a (check_bounds p (before_fulfill p a s))"
    and "\<not> controller_runs p a s \<Longrightarrow> inc_bytes (on_ack p a s) = inc_bytes s"
proof -
  show run: "controller_runs p a s \<Longrightarrow>
      on_ack p a s = sleek_on_ack p a (check_bounds p (before_fulfill p a s))"
    using assms by (simp add: on_ack_controller_runs fulfill_fires_def fulfill_check_def)
  consider "mask_active s" | "qa_fires_on_ack p a s" | "controller_runs p a s"
    using on_ack_cases by blast
  then show "last_adjust_time (on_ack p a s) = last_adjust_time s"
  proof cases
    case 1
    then show ?thesis by (simp add: on_ack_masked)
  next
    case 2
    then show ?thesis by (simp add: on_ack_qa_fires check_bounds_eq)
  next
    case 3
    then show ?thesis by (simp add: run check_bounds_eq)
  qed
  assume idle: "\<not> controller_runs p a s"
  then consider "mask_active s" | "qa_fires_on_ack p a s"
    using on_ack_cases by blast
  then show "inc_bytes (on_ack p a s) = inc_bytes s"
  proof cases
    case 1
    then show ?thesis by (simp add: on_ack_masked)
  next
    case 2
    then show ?thesis by (simp add: on_ack_qa_fires check_bounds_eq)
  qed
qed

subsection \<open>The multiplicative decrease\<close>



lemma quick_adapt_last_dec_time [simp]:
  "last_dec_time (quick_adapt p now l d s) = last_dec_time s"
  by (simp add: quick_adapt_def qa_reset_def)

lemma fulfill_check_last_dec_time [simp]:
  "last_dec_time (fulfill_check p now s) = last_dec_time s"
  by (simp add: fulfill_check_def fulfill_adjustment_eq)

lemma fast_increase_track_last_dec_time [simp]:
  "last_dec_time (fast_increase_track d n s) = last_dec_time s"
  by (simp add: fast_increase_track_def)






subsection \<open>The fulfill adjustment\<close>

lemma check_bounds_cwnd:
  "cwnd (check_bounds p s) = min (maxwnd s) (max (min_cwnd p) (cwnd s))"
  by (simp add: check_bounds_def Let_def min_def max_def)

lemma sdiv_is_floor:
  assumes "0 \<le> (k::int)" and "0 < l"
  shows "k sdiv l = \<lfloor>of_int k / of_int l :: rat\<rfloor>"
proof -
  from assms have "k sdiv l = k div l"
    by (simp add: signed_divide_int_def sgn_if)
  then show ?thesis by (simp add: floor_divide_of_int_eq)
qed

text \<open>
  C3 (amended). On an ACK on which the window controller runs (one outside the
  stale-feedback mask on which the Quick Adapt check does not fire) the fulfill adjustment
  fires exactly when \<open>received_bytes > adjust_bytes_threshold\<close>, the bytes of this ACK
  counted, or \<open>now - last_adjust_time > adjust_period_threshold\<close>; on any other ACK it
  does not fire. The adjustment sets \<open>cwnd\<close> to \<open>cwnd + inc_bytes / cwnd + eta\<close> in
  whole bytes: the quotient is the integer one and the sum with \<open>eta\<close> loses its
  fraction; it resets \<open>inc_bytes\<close> and \<open>received_bytes\<close> to zero and
  \<open>last_adjust_time\<close> to the present. With \<open>inc_bytes = 0\<close> it adds the whole bytes
  of \<open>eta\<close>, which is \<open>eta\<close> itself when \<open>eta\<close> is a whole number, and after the
  bounds clamp the window is that sum clamped between \<open>min_cwnd\<close> and \<open>maxwnd\<close>.
\<close>

theorem fulfill_adjustment_effect:
  "fulfill_due p now s
     = (received_bytes s > adjust_bytes_threshold p
        \<or> now - last_adjust_time s > adjust_period_threshold p)
   \<and> (fulfill_due p now s \<longrightarrow> fulfill_check p now s = fulfill_adjustment p now s)
   \<and> (\<not> fulfill_due p now s \<longrightarrow> fulfill_check p now s = s)
   \<and> cwnd (fulfill_adjustment p now s)
       = mem_b_of (of_int (cwnd s + inc_bytes s sdiv cwnd s) + eta p)
   \<and> (0 \<le> eta p \<and> 0 \<le> cwnd s + inc_bytes s sdiv cwnd s \<longrightarrow>
        cwnd (fulfill_adjustment p now s) = cwnd s + inc_bytes s sdiv cwnd s + \<lfloor>eta p\<rfloor>)
   \<and> (0 \<le> inc_bytes s \<and> 0 < cwnd s \<longrightarrow>
        inc_bytes s sdiv cwnd s = \<lfloor>of_int (inc_bytes s) / of_int (cwnd s) :: rat\<rfloor>)
   \<and> inc_bytes (fulfill_adjustment p now s) = 0
   \<and> received_bytes (fulfill_adjustment p now s) = 0
   \<and> last_adjust_time (fulfill_adjustment p now s) = now
   \<and> (inc_bytes s = 0 \<and> 0 \<le> eta p \<and> 0 \<le> cwnd s \<longrightarrow>
        cwnd (fulfill_adjustment p now s) = cwnd s + \<lfloor>eta p\<rfloor>
        \<and> cwnd (check_bounds p (fulfill_adjustment p now s))
            = min (maxwnd s) (max (min_cwnd p) (cwnd s + \<lfloor>eta p\<rfloor>)))
   \<and> (inc_bytes s = 0 \<and> eta p = of_int k \<longrightarrow> cwnd (fulfill_adjustment p now s) = cwnd s + k)
   \<and> fulfill_fires p a s
       = (controller_runs p a s
          \<and> (received_bytes s + ack_bytes a > adjust_bytes_threshold p
             \<or> ack_time a - last_adjust_time s > adjust_period_threshold p))
   \<and> (fulfill_fires p a s \<longrightarrow>
        on_ack p a s
          = sleek_on_ack p a
              (check_bounds p (fulfill_adjustment p (ack_time a) (before_fulfill p a s)))
        \<and> last_adjust_time (on_ack p a s) = ack_time a
        \<and> inc_bytes (on_ack p a s) = 0
        \<and> received_bytes (on_ack p a s) = 0)
   \<and> (\<not> fulfill_fires p a s \<longrightarrow>
        last_adjust_time (on_ack p a s) = last_adjust_time s
        \<and> (controller_runs p a s \<longrightarrow>
              on_ack p a s = sleek_on_ack p a (check_bounds p (before_fulfill p a s)))
        \<and> (\<not> controller_runs p a s \<longrightarrow> inc_bytes (on_ack p a s) = inc_bytes s))"
proof -
  have body: "cwnd (fulfill_adjustment p now s)
       = mem_b_of (of_int (cwnd s + inc_bytes s sdiv cwnd s) + eta p)"
    by (simp add: fulfill_adjustment_eq)
  have whole: "0 \<le> eta p \<and> 0 \<le> cwnd s + inc_bytes s sdiv cwnd s \<longrightarrow>
        cwnd (fulfill_adjustment p now s) = cwnd s + inc_bytes s sdiv cwnd s + \<lfloor>eta p\<rfloor>"
    unfolding body
    using mem_b_of_add_int [of "eta p" "cwnd s + inc_bytes s sdiv cwnd s"] by blast
  have quotient: "0 \<le> inc_bytes s \<and> 0 < cwnd s \<longrightarrow>
        inc_bytes s sdiv cwnd s = \<lfloor>of_int (inc_bytes s) / of_int (cwnd s) :: rat\<rfloor>"
    by (simp add: sdiv_is_floor)
  have ceiling: "maxwnd (fulfill_adjustment p now s) = maxwnd s"
    by (simp add: fulfill_adjustment_eq)
  have nudge: "inc_bytes s = 0 \<and> 0 \<le> eta p \<and> 0 \<le> cwnd s \<longrightarrow>
        cwnd (fulfill_adjustment p now s) = cwnd s + \<lfloor>eta p\<rfloor>
        \<and> cwnd (check_bounds p (fulfill_adjustment p now s))
            = min (maxwnd s) (max (min_cwnd p) (cwnd s + \<lfloor>eta p\<rfloor>))"
    using whole by (simp add: check_bounds_cwnd ceiling)
  have exact: "inc_bytes s = 0 \<and> eta p = of_int k \<longrightarrow>
        cwnd (fulfill_adjustment p now s) = cwnd s + k"
  proof
    assume h: "inc_bytes s = 0 \<and> eta p = of_int k"
    then have "of_int (cwnd s + inc_bytes s sdiv cwnd s) + eta p = (of_int (cwnd s + k) :: rat)"
      by simp
    then show "cwnd (fulfill_adjustment p now s) = cwnd s + k"
      unfolding body by (simp only: mem_b_of_of_int)
  qed
  have fires: "fulfill_fires p a s
       = (controller_runs p a s
          \<and> (received_bytes s + ack_bytes a > adjust_bytes_threshold p
             \<or> ack_time a - last_adjust_time s > adjust_period_threshold p))"
    by (simp add: fulfill_fires_def fulfill_due_def)
  have fired: "fulfill_fires p a s \<longrightarrow>
        on_ack p a s
          = sleek_on_ack p a
              (check_bounds p (fulfill_adjustment p (ack_time a) (before_fulfill p a s)))
        \<and> last_adjust_time (on_ack p a s) = ack_time a
        \<and> inc_bytes (on_ack p a s) = 0
        \<and> received_bytes (on_ack p a s) = 0"
    by (simp add: fulfill_fires_def on_ack_controller_runs fulfill_check_def check_bounds_eq
          fulfill_adjustment_eq)
  have idle: "\<not> fulfill_fires p a s \<longrightarrow>
        last_adjust_time (on_ack p a s) = last_adjust_time s
        \<and> (controller_runs p a s \<longrightarrow>
              on_ack p a s = sleek_on_ack p a (check_bounds p (before_fulfill p a s)))
        \<and> (\<not> controller_runs p a s \<longrightarrow> inc_bytes (on_ack p a s) = inc_bytes s)"
    using on_ack_no_fulfill [of p a s] by blast
  have check: "fulfill_due p now s
     = (received_bytes s > adjust_bytes_threshold p
        \<or> now - last_adjust_time s > adjust_period_threshold p)
   \<and> (fulfill_due p now s \<longrightarrow> fulfill_check p now s = fulfill_adjustment p now s)
   \<and> (\<not> fulfill_due p now s \<longrightarrow> fulfill_check p now s = s)
   \<and> inc_bytes (fulfill_adjustment p now s) = 0
   \<and> received_bytes (fulfill_adjustment p now s) = 0
   \<and> last_adjust_time (fulfill_adjustment p now s) = now"
    by (simp add: fulfill_due_def fulfill_check_def fulfill_adjustment_eq)
  from check body whole quotient nudge exact fires fired idle show ?thesis
    by (intro conjI) blast+
qed

theorem fulfill_adjustment_effect_witness:
  "fulfill_due scenario_params 1000000
      ((scenario_flow 60000)\<lparr>inc_bytes := 240000, received_bytes := 32769\<rparr>)
   \<and> cwnd (fulfill_check scenario_params 1000000
        ((scenario_flow 60000)\<lparr>inc_bytes := 240000, received_bytes := 32769\<rparr>)) = 60618
   \<and> \<not> fulfill_due scenario_params 1000000
        ((scenario_flow 60000)\<lparr>inc_bytes := 240000, received_bytes := 4096\<rparr>)
   \<and> fulfill_check scenario_params 1000000
        ((scenario_flow 60000)\<lparr>inc_bytes := 240000, received_bytes := 4096\<rparr>)
      = (scenario_flow 60000)\<lparr>inc_bytes := 240000, received_bytes := 4096\<rparr>
   \<and> inc_bytes ((scenario_flow 224900)\<lparr>received_bytes := 32769\<rparr>) = 0
   \<and> 0 \<le> eta scenario_params
   \<and> cwnd (fulfill_adjustment scenario_params 1000000
        ((scenario_flow 224900)\<lparr>received_bytes := 32769\<rparr>)) = 225514
   \<and> cwnd (check_bounds scenario_params (fulfill_adjustment scenario_params 1000000
        ((scenario_flow 224900)\<lparr>received_bytes := 32769\<rparr>))) = 225000
   \<and> eta (scenario_params\<lparr>eta := 600\<rparr>) = of_int 600
   \<and> cwnd (fulfill_adjustment (scenario_params\<lparr>eta := 600\<rparr>) 1000000 (scenario_flow 60000))
       = 60600
   \<and> controller_runs scenario_params (scenario_ack 13000000 12000000 False) (scenario_flow 60000)
   \<and> fulfill_fires scenario_params (scenario_ack 13000000 12000000 False) (scenario_flow 60000)
   \<and> last_adjust_time (on_ack scenario_params (scenario_ack 13000000 12000000 False)
        (scenario_flow 60000)) = 13000000
   \<and> received_bytes (on_ack scenario_params (scenario_ack 13000000 12000000 False)
        (scenario_flow 60000)) = 0
   \<and> controller_runs scenario_params (scenario_ack 1000000 12000000 False) (scenario_flow 60000)
   \<and> \<not> fulfill_fires scenario_params (scenario_ack 1000000 12000000 False) (scenario_flow 60000)
   \<and> last_adjust_time (on_ack scenario_params (scenario_ack 1000000 12000000 False)
        (scenario_flow 60000)) = 0"
proof -
  let ?p = scenario_params
  let ?d = "(scenario_flow 60000)\<lparr>inc_bytes := 240000, received_bytes := 32769\<rparr>"
  let ?n = "(scenario_flow 60000)\<lparr>inc_bytes := 240000, received_bytes := 4096\<rparr>"
  let ?z = "(scenario_flow 224900)\<lparr>received_bytes := 32769\<rparr>"
  let ?a = "scenario_ack 13000000 12000000 False"
  let ?b = "scenario_ack 1000000 12000000 False"
  have v: "eta ?p = 3072 / 5" "adjust_bytes_threshold ?p = 32768"
      "adjust_period_threshold ?p = 12000000" "min_cwnd ?p = 4096"
    by (simp_all add: adjust_bytes_threshold_def min_cwnd_def scenario_defs)
  have f: "cwnd ?d = 60000" "inc_bytes ?d = 240000" "received_bytes ?d = 32769"
      "last_adjust_time ?d = 0" "received_bytes ?n = 4096" "last_adjust_time ?n = 0"
      "cwnd ?z = 224900" "inc_bytes ?z = 0" "maxwnd ?z = 225000"
      "cwnd (scenario_flow 60000) = 60000" "inc_bytes (scenario_flow 60000) = 0"
      "received_bytes (scenario_flow 60000) = 0" "last_adjust_time (scenario_flow 60000) = 0"
    by (simp_all add: scenario_defs)
  have t: "ack_time ?a = 13000000" "ack_bytes ?a = 4096" "ack_time ?b = 1000000" "ack_bytes ?b = 4096"
    by (simp_all add: scenario_ack_def)
  have runs: "controller_runs ?p ?a (scenario_flow 60000)" "controller_runs ?p ?b (scenario_flow 60000)"
    by code_simp+
  note D = fulfill_adjustment_effect [where p = ?p and now = 1000000 and s = ?d and a = ?a]
  note N = fulfill_adjustment_effect [where p = ?p and now = 1000000 and s = ?n and a = ?a]
  note Z = fulfill_adjustment_effect [where p = ?p and now = 1000000 and s = ?z and a = ?a]
  note W = fulfill_adjustment_effect [where p = "?p\<lparr>eta := 600\<rparr>" and now = 1000000
      and s = "scenario_flow 60000" and k = 600 and a = ?a]
  note A = fulfill_adjustment_effect [where p = ?p and s = "scenario_flow 60000" and a = ?a]
  note B = fulfill_adjustment_effect [where p = ?p and s = "scenario_flow 60000" and a = ?b]
  from D have due: "fulfill_due ?p 1000000 ?d" by (simp add: v f)
  from D due have d1: "cwnd (fulfill_check ?p 1000000 ?d) = 60618"
    by (simp add: v f)
  from N have idle: "\<not> fulfill_due ?p 1000000 ?n" by (simp add: v f)
  from N idle have n1: "fulfill_check ?p 1000000 ?n = ?n" by blast
  have eta: "0 \<le> eta ?p" by (simp add: v)
  from Z eta have z1: "cwnd (fulfill_adjustment ?p 1000000 ?z) = 225514"
      and z2: "cwnd (check_bounds ?p (fulfill_adjustment ?p 1000000 ?z)) = 225000"
    by (simp_all add: v f)
  have w0: "eta (?p\<lparr>eta := 600\<rparr>) = of_int 600" by simp
  from W w0 f(11) have w1: "cwnd (fulfill_adjustment (?p\<lparr>eta := 600\<rparr>) 1000000 (scenario_flow 60000))
      = cwnd (scenario_flow 60000) + 600"
    by blast
  from A runs(1) have a0: "fulfill_fires ?p ?a (scenario_flow 60000)"
    by (simp add: v f t)
  from A a0 have a1: "last_adjust_time (on_ack ?p ?a (scenario_flow 60000)) = ack_time ?a"
      and a2: "received_bytes (on_ack ?p ?a (scenario_flow 60000)) = 0"
    by blast+
  from B runs(2) have b0: "\<not> fulfill_fires ?p ?b (scenario_flow 60000)"
    by (simp add: v f t)
  from B b0 have b1: "last_adjust_time (on_ack ?p ?b (scenario_flow 60000))
      = last_adjust_time (scenario_flow 60000)"
    by blast
  from due d1 idle n1 f(8) eta z1 z2 w0 w1 [unfolded f] runs(1) a0 a1 [unfolded t] a2 runs(2) b0
    b1 [unfolded f]
  show ?thesis by (intro conjI) simp_all
qed

text \<open>
  The claim as stated fails in two places. With \<open>eta = 614.4\<close> (the scenario's
  bundle) a fulfill adjustment with \<open>inc_bytes = 0\<close> turns a window of 60000 bytes,
  well inside the bounds, into 60614 bytes, not \<open>60000 + eta\<close>; and with
  \<open>inc_bytes = 240000\<close> it gives 60618, not \<open>60000 + 4 + 614.4\<close>. And an ACK that
  arrives under the stale-feedback mask with \<open>received_bytes\<close> above the threshold, and
  more than the adjustment period after the last adjustment, causes no fulfill
  adjustment: the accumulator, the counter, the time of the last adjustment and the
  window stay as they are.
\<close>

theorem fulfill_adjustment_counterexample:
  "inc_bytes (scenario_flow 60000) = 0
   \<and> eta scenario_params = 3072 / 5
   \<and> cwnd (fulfill_adjustment scenario_params 13000000 (scenario_flow 60000)) = 60614
   \<and> (of_int (cwnd (fulfill_adjustment scenario_params 13000000 (scenario_flow 60000))) :: rat)
       \<noteq> of_int (cwnd (scenario_flow 60000)) + eta scenario_params
   \<and> cwnd (check_bounds scenario_params
        (fulfill_adjustment scenario_params 13000000 (scenario_flow 60000))) = 60614
   \<and> cwnd (fulfill_adjustment scenario_params 13000000
        ((scenario_flow 60000)\<lparr>inc_bytes := 240000\<rparr>)) = 60618
   \<and> (of_int (cwnd (fulfill_adjustment scenario_params 13000000
          ((scenario_flow 60000)\<lparr>inc_bytes := 240000\<rparr>))) :: rat)
       \<noteq> of_int (cwnd ((scenario_flow 60000)\<lparr>inc_bytes := 240000\<rparr>))
           + of_int (inc_bytes ((scenario_flow 60000)\<lparr>inc_bytes := 240000\<rparr>))
             / of_int (cwnd ((scenario_flow 60000)\<lparr>inc_bytes := 240000\<rparr>))
           + eta scenario_params
   \<and> mask_active ((scenario_flow 60000)
        \<lparr>inc_bytes := 240000, received_bytes := 40000, bytes_to_ignore := 100000\<rparr>)
   \<and> received_bytes ((scenario_flow 60000)
        \<lparr>inc_bytes := 240000, received_bytes := 40000, bytes_to_ignore := 100000\<rparr>)
       > adjust_bytes_threshold scenario_params
   \<and> ack_time (scenario_ack 13000000 12000000 False)
       - last_adjust_time ((scenario_flow 60000)
           \<lparr>inc_bytes := 240000, received_bytes := 40000, bytes_to_ignore := 100000\<rparr>)
       > adjust_period_threshold scenario_params
   \<and> inc_bytes (on_ack scenario_params (scenario_ack 13000000 12000000 False)
        ((scenario_flow 60000)
           \<lparr>inc_bytes := 240000, received_bytes := 40000, bytes_to_ignore := 100000\<rparr>)) = 240000
   \<and> received_bytes (on_ack scenario_params (scenario_ack 13000000 12000000 False)
        ((scenario_flow 60000)
           \<lparr>inc_bytes := 240000, received_bytes := 40000, bytes_to_ignore := 100000\<rparr>)) = 40000
   \<and> last_adjust_time (on_ack scenario_params (scenario_ack 13000000 12000000 False)
        ((scenario_flow 60000)
           \<lparr>inc_bytes := 240000, received_bytes := 40000, bytes_to_ignore := 100000\<rparr>)) = 0
   \<and> cwnd (on_ack scenario_params (scenario_ack 13000000 12000000 False)
        ((scenario_flow 60000)
           \<lparr>inc_bytes := 240000, received_bytes := 40000, bytes_to_ignore := 100000\<rparr>)) = 60000"
  by code_simp
subsection \<open>The window bounds\<close>



subsection \<open>The base RTT\<close>



subsection \<open>The delay filter\<close>

text \<open>
  C7. On every non-probe ACK the filtered delay becomes
  \<open>delay_alpha * sample + (1 - delay_alpha) * avg_delay\<close>, where the sample follows the
  three cases, with the raw delay \<open>raw_rtt - base_rtt\<close> taken against the refined base
  RTT: an extreme raw delay, above \<open>5 * base_rtt\<close>, is fed as it is, also when the
  discount's condition holds (the extreme case overrides it); otherwise an ACK without
  ECN whose raw delay is above the target feeds \<open>0.25 * base_rtt\<close>; in every other case
  the raw delay is fed.
\<close>

theorem delay_filter_update:
  "avg_delay (on_ack p a s)
     = delay_alpha p * ewma_sample p (ack_ecn a) (raw_delay_of (ack_rtt a) s)
                         (refine_base_rtt p (ack_rtt a) s)
       + (1 - delay_alpha p) * avg_delay s
   \<and> raw_delay_of (ack_rtt a) s = ack_rtt a - base_rtt (on_ack p a s)
   \<and> (\<not> ack_ecn a \<and> raw_delay_of (ack_rtt a) s > target_Qdelay p
        \<and> \<not> raw_delay_of (ack_rtt a) s > 5 * base_rtt (on_ack p a s) \<longrightarrow>
        avg_delay (on_ack p a s)
          = delay_alpha p * ((1 / 4) * base_rtt (on_ack p a s)) + (1 - delay_alpha p) * avg_delay s)
   \<and> (raw_delay_of (ack_rtt a) s > 5 * base_rtt (on_ack p a s) \<longrightarrow>
        avg_delay (on_ack p a s)
          = delay_alpha p * raw_delay_of (ack_rtt a) s + (1 - delay_alpha p) * avg_delay s)
   \<and> (\<not> (\<not> ack_ecn a \<and> raw_delay_of (ack_rtt a) s > target_Qdelay p)
        \<and> \<not> raw_delay_of (ack_rtt a) s > 5 * base_rtt (on_ack p a s) \<longrightarrow>
        avg_delay (on_ack p a s)
          = delay_alpha p * raw_delay_of (ack_rtt a) s + (1 - delay_alpha p) * avg_delay s)"
proof -
  have filt: "avg_delay (on_ack p a s)
     = delay_alpha p * ewma_sample p (ack_ecn a) (raw_delay_of (ack_rtt a) s)
                         (refine_base_rtt p (ack_rtt a) s)
       + (1 - delay_alpha p) * avg_delay s"
    by (simp add: on_ack_def Let_def delay_estimator_def update_delay_def)
  have raw: "raw_delay_of (ack_rtt a) s = ack_rtt a - base_rtt (on_ack p a s)"
    by (simp add: raw_delay_of_def on_ack_base_rtt min_def max_def)
  from raw show ?thesis
    unfolding filt by (simp add: ewma_sample_def on_ack_base_rtt)
qed

theorem delay_filter_update_witness:
  "\<not> ack_ecn (scenario_ack 1000000 22000000 False)
   \<and> raw_delay_of (ack_rtt (scenario_ack 1000000 22000000 False)) (scenario_flow 100000)
       > target_Qdelay scenario_params
   \<and> avg_delay (on_ack scenario_params (scenario_ack 1000000 22000000 False) (scenario_flow 100000))
       = 37500
   \<and> raw_delay_of (ack_rtt (scenario_ack 1000000 80000000 False)) (scenario_flow 100000)
       > 5 * base_rtt (scenario_flow 100000)
   \<and> avg_delay (on_ack scenario_params (scenario_ack 1000000 80000000 False) (scenario_flow 100000))
       = 850000
   \<and> ack_ecn (scenario_ack 1000000 22000000 True)
   \<and> avg_delay (on_ack scenario_params (scenario_ack 1000000 22000000 True) (scenario_flow 100000))
       = 125000"
  using delay_filter_update
      [of scenario_params "scenario_ack 1000000 22000000 False" "scenario_flow 100000"]
    delay_filter_update
      [of scenario_params "scenario_ack 1000000 80000000 False" "scenario_flow 100000"]
    delay_filter_update
      [of scenario_params "scenario_ack 1000000 22000000 True" "scenario_flow 100000"]
  by (simp add: raw_delay_of_def on_ack_base_rtt scenario_defs)

subsection \<open>Quick Adapt and the mask\<close>

text \<open>
  C5. When a Quick Adapt evaluation takes place it fires exactly when (trigger or loss or
  raw delay above \<open>4 * target_Qdelay\<close>) and \<open>achieved_bytes < maxwnd >> qa_gate\<close>,
  the shift being the one of the integer \<open>maxwnd\<close> (with the default gate 3 and a
  ceiling of 174375 bytes the bound is 21796 bytes, not 21796.875). On fire it sets \<open>cwnd\<close> to \<open>max achieved_bytes min_cwnd\<close>,
  \<open>bytes_to_ignore\<close> to the bytes in flight, \<open>bytes_ignored\<close> to zero, and restarts the
  interval timer. From the state it leaves, for any ACKs that arrive while fewer than
  that many bytes have been acknowledged since the reset, each ACK adds its bytes to
  \<open>bytes_ignored\<close> and the window controller does not run: \<open>inc_bytes\<close>, the time of
  the last decrease, the fast-increase state and \<open>received_bytes\<close> are unchanged, and
  so is \<open>cwnd\<close> as long as no ACK brings a new minimum RTT (which would lower the
  ceiling and clamp the window, the delay estimator running on every ACK).
\<close>

theorem quick_adapt_reset_and_mask:
  "(qa_evaluation_due p now l d s \<longrightarrow>
      qa_fires p now l d s
        = ((trigger_qa s \<or> l \<or> d > 4 * target_Qdelay p)
           \<and> achieved_bytes s < drop_bit (qa_gate p) (maxwnd s)))
   \<and> (qa_fires p now l d s \<longrightarrow>
        cwnd (quick_adapt p now l d s) = max (achieved_bytes s) (min_cwnd p)
        \<and> bytes_to_ignore (quick_adapt p now l d s) = in_flight s
        \<and> bytes_ignored (quick_adapt p now l d s) = 0
        \<and> qa_last_eval_time (quick_adapt p now l d s) = now
        \<and> ((\<forall>k<length as. sum_list (map ack_bytes (take k as)) < in_flight s) \<longrightarrow>
             bytes_ignored (run_acks p as (check_bounds p (quick_adapt p now l d s)))
               = sum_list (map ack_bytes as)
             \<and> inc_bytes (run_acks p as (check_bounds p (quick_adapt p now l d s))) = inc_bytes s
             \<and> last_dec_time (run_acks p as (check_bounds p (quick_adapt p now l d s)))
                 = last_dec_time s
             \<and> fi_count (run_acks p as (check_bounds p (quick_adapt p now l d s))) = fi_count s
             \<and> fast_mode (run_acks p as (check_bounds p (quick_adapt p now l d s))) = fast_mode s
             \<and> received_bytes (run_acks p as (check_bounds p (quick_adapt p now l d s)))
                 = received_bytes s
             \<and> ((\<forall>a\<in>set as. base_rtt s \<le> ack_rtt a) \<longrightarrow>
                  cwnd (run_acks p as (check_bounds p (quick_adapt p now l d s)))
                    = cwnd (check_bounds p (quick_adapt p now l d s)))))"
proof -
  let ?s1 = "check_bounds p (quick_adapt p now l d s)"
  have cond: "qa_evaluation_due p now l d s \<longrightarrow>
      qa_fires p now l d s
        = ((trigger_qa s \<or> l \<or> d > 4 * target_Qdelay p)
           \<and> achieved_bytes s < drop_bit (qa_gate p) (maxwnd s))"
    by (simp add: qa_fires_def qa_fire_condition_def)
  have reset: "qa_fires p now l d s \<Longrightarrow> quick_adapt p now l d s = qa_reset p now s"
    by (simp add: qa_fires_def quick_adapt_def)
  have fields: "qa_fires p now l d s \<longrightarrow>
        cwnd (quick_adapt p now l d s) = max (achieved_bytes s) (min_cwnd p)
        \<and> bytes_to_ignore (quick_adapt p now l d s) = in_flight s
        \<and> bytes_ignored (quick_adapt p now l d s) = 0
        \<and> qa_last_eval_time (quick_adapt p now l d s) = now"
    by (simp add: reset qa_reset_def)
  have mask: "qa_fires p now l d s \<Longrightarrow>
        \<forall>k<length as. sum_list (map ack_bytes (take k as)) < in_flight s \<Longrightarrow>
        \<forall>k<length as. bytes_ignored ?s1 + sum_list (map ack_bytes (take k as)) < bytes_to_ignore ?s1"
    by (simp add: reset qa_reset_def check_bounds_eq)
  have post: "qa_fires p now l d s \<Longrightarrow>
        bytes_ignored ?s1 = 0 \<and> inc_bytes ?s1 = inc_bytes s \<and> last_dec_time ?s1 = last_dec_time s
        \<and> fi_count ?s1 = fi_count s \<and> fast_mode ?s1 = fast_mode s
        \<and> received_bytes ?s1 = received_bytes s \<and> base_rtt ?s1 = base_rtt s"
    by (simp add: reset qa_reset_def check_bounds_eq)
  show ?thesis
    using cond fields run_acks_masked [OF mask, of p] run_acks_masked_cwnd [OF mask, of p] post
    by simp
qed


theorem quick_adapt_reset_and_mask_witness:
  "qa_evaluation_due scenario_params 25000000 False 0
      ((scenario_flow 225000)\<lparr>achieved_bytes := 1024, trigger_qa := True, in_flight := 200000\<rparr>)
   \<and> qa_fires scenario_params 25000000 False 0
      ((scenario_flow 225000)\<lparr>achieved_bytes := 1024, trigger_qa := True, in_flight := 200000\<rparr>)
   \<and> cwnd (quick_adapt scenario_params 25000000 False 0
        ((scenario_flow 225000)\<lparr>achieved_bytes := 1024, trigger_qa := True,
           in_flight := 200000\<rparr>)) = 4096
   \<and> bytes_to_ignore (quick_adapt scenario_params 25000000 False 0
        ((scenario_flow 225000)\<lparr>achieved_bytes := 1024, trigger_qa := True,
           in_flight := 200000\<rparr>)) = 200000
   \<and> bytes_ignored (run_acks scenario_params
        [scenario_ack 26000000 12000000 False, scenario_ack 27000000 13000000 True,
         scenario_ack 28000000 12000000 False]
        (check_bounds scenario_params (quick_adapt scenario_params 25000000 False 0
          ((scenario_flow 225000)\<lparr>achieved_bytes := 1024, trigger_qa := True,
             in_flight := 200000\<rparr>)))) = 12288
   \<and> inc_bytes (run_acks scenario_params
        [scenario_ack 26000000 12000000 False, scenario_ack 27000000 13000000 True,
         scenario_ack 28000000 12000000 False]
        (check_bounds scenario_params (quick_adapt scenario_params 25000000 False 0
          ((scenario_flow 225000)\<lparr>achieved_bytes := 1024, trigger_qa := True,
             in_flight := 200000\<rparr>)))) = 0
   \<and> cwnd (run_acks scenario_params
        [scenario_ack 26000000 12000000 False, scenario_ack 27000000 13000000 True,
         scenario_ack 28000000 12000000 False]
        (check_bounds scenario_params (quick_adapt scenario_params 25000000 False 0
          ((scenario_flow 225000)\<lparr>achieved_bytes := 1024, trigger_qa := True,
             in_flight := 200000\<rparr>)))) = 4096
   \<and> qa_evaluation_due scenario_params 25000000 False 0
        ((scenario_flow 100000)\<lparr>maxwnd := 174375, achieved_bytes := 21796, trigger_qa := True\<rparr>)
   \<and> \<not> qa_fires scenario_params 25000000 False 0
        ((scenario_flow 100000)\<lparr>maxwnd := 174375, achieved_bytes := 21796, trigger_qa := True\<rparr>)
   \<and> qa_fires scenario_params 25000000 False 0
        ((scenario_flow 100000)\<lparr>maxwnd := 174375, achieved_bytes := 21795, trigger_qa := True\<rparr>)"
proof -
  let ?s = "(scenario_flow 225000)\<lparr>achieved_bytes := 1024, trigger_qa := True, in_flight := 200000\<rparr>"
  let ?as = "[scenario_ack 26000000 12000000 False, scenario_ack 27000000 13000000 True,
              scenario_ack 28000000 12000000 False]"
  let ?q = "quick_adapt scenario_params 25000000 False 0 ?s"
  have due: "qa_evaluation_due scenario_params 25000000 False 0 ?s"
    by (simp add: qa_evaluation_due_def qa_interval_elapsed_def scenario_defs)
  have fires: "qa_fires scenario_params 25000000 False 0 ?s"
    using due by (simp add: qa_fires_def qa_fire_condition_def scenario_defs)
  have drained: "\<forall>k<length ?as. sum_list (map ack_bytes (take k ?as)) < in_flight ?s"
    by (simp add: All_less_Suc scenario_ack_def)
  have rtts: "\<forall>a\<in>set ?as. base_rtt ?s \<le> ack_rtt a"
    by (simp add: scenario_defs)
  have fields: "inc_bytes ?s = 0" "achieved_bytes ?s = 1024" "in_flight ?s = 200000"
      "min_cwnd scenario_params = 4096" "maxwnd ?s = 225000"
      "sum_list (map ack_bytes ?as) = 12288"
    by (simp_all add: min_cwnd_def scenario_defs)
  note T = quick_adapt_reset_and_mask [of scenario_params 25000000 False 0 ?s ?as]
  from T fires have c1: "cwnd ?q = max (achieved_bytes ?s) (min_cwnd scenario_params)"
    and c2: "bytes_to_ignore ?q = in_flight ?s"
    by blast+
  from T fires drained rtts
  have c3: "bytes_ignored (run_acks scenario_params ?as (check_bounds scenario_params ?q))
           = sum_list (map ack_bytes ?as)"
    and c4: "inc_bytes (run_acks scenario_params ?as (check_bounds scenario_params ?q)) = inc_bytes ?s"
    and c5: "cwnd (run_acks scenario_params ?as (check_bounds scenario_params ?q))
           = cwnd (check_bounds scenario_params ?q)"
    by blast+
  have q: "cwnd ?q = 4096" unfolding c1 fields by simp
  have "cwnd (check_bounds scenario_params ?q) = 4096"
    by (simp add: check_bounds_eq q fields)
  with c5 have c5': "cwnd (run_acks scenario_params ?as (check_bounds scenario_params ?q)) = 4096"
    by simp
  from c2 have c2': "bytes_to_ignore ?q = 200000" unfolding fields .
  from c3 have c3': "bytes_ignored (run_acks scenario_params ?as (check_bounds scenario_params ?q))
           = 12288" unfolding fields .
  from c4 have c4': "inc_bytes (run_acks scenario_params ?as (check_bounds scenario_params ?q)) = 0"
    unfolding fields .
  let ?b = "(scenario_flow 100000)\<lparr>maxwnd := 174375, achieved_bytes := 21796, trigger_qa := True\<rparr>"
  let ?c = "(scenario_flow 100000)\<lparr>maxwnd := 174375, achieved_bytes := 21795, trigger_qa := True\<rparr>"
  have due_b: "qa_evaluation_due scenario_params 25000000 False 0 ?b"
    and due_c: "qa_evaluation_due scenario_params 25000000 False 0 ?c"
    by (simp_all add: qa_evaluation_due_def qa_interval_elapsed_def scenario_defs)
  have shift: "drop_bit (qa_gate scenario_params) (maxwnd ?b) = 21796"
      "drop_bit (qa_gate scenario_params) (maxwnd ?c) = 21796"
    by (simp_all add: drop_bit_eq_div scenario_defs)
  have gate: "trigger_qa ?b" "achieved_bytes ?b = 21796" "trigger_qa ?c" "achieved_bytes ?c = 21795"
    by simp_all
  from quick_adapt_reset_and_mask [of scenario_params 25000000 False 0 ?b "[]"] due_b
  have "qa_fires scenario_params 25000000 False 0 ?b
      = ((trigger_qa ?b \<or> False \<or> 0 > 4 * target_Qdelay scenario_params)
         \<and> achieved_bytes ?b < drop_bit (qa_gate scenario_params) (maxwnd ?b))"
    by blast
  then have quiet: "\<not> qa_fires scenario_params 25000000 False 0 ?b"
    unfolding shift gate by simp
  from quick_adapt_reset_and_mask [of scenario_params 25000000 False 0 ?c "[]"] due_c
  have "qa_fires scenario_params 25000000 False 0 ?c
      = ((trigger_qa ?c \<or> False \<or> 0 > 4 * target_Qdelay scenario_params)
         \<and> achieved_bytes ?c < drop_bit (qa_gate scenario_params) (maxwnd ?c))"
    by blast
  then have loud: "qa_fires scenario_params 25000000 False 0 ?c"
    unfolding shift gate by simp
  from due fires q c2' c3' c4' c5' due_b quiet loud show ?thesis by (intro conjI)
qed

subsection \<open>The quadrant classifier\<close>

text \<open>
  C1 (amended). The quadrant classifier decides from the raw delay of the ACK and its
  ECN bit; the filtered delay plays no part. It selects exactly: when \<open>ecn = 0\<close> and
  \<open>raw_delay < target_Qdelay\<close>, proportional increase, unless the ACK qualifies for
  fast increase (raw delay under 1 microsecond, with the run of such bytes above
  \<open>cwnd\<close> or the mode already on), which then takes its place; fair increase when
  \<open>ecn = 0\<close> and \<open>raw_delay \<ge> target_Qdelay\<close>; NOOP, which leaves the state as it is,
  when \<open>ecn = 1\<close> and \<open>raw_delay < target_Qdelay\<close>; multiplicative decrease when
  \<open>ecn = 1\<close> and \<open>raw_delay \<ge> target_Qdelay\<close>. The classifier is reached by every ACK
  outside the stale-feedback mask on which the Quick Adapt check, which comes first, does
  not fire; the handler then applies the selected action, the fulfill check and the
  clamp.
\<close>

theorem quadrant_selection:
  "(\<not> e \<and> d < target_Qdelay p \<longrightarrow>
        classify p e d n s
          = (if fast_increase_qualifies d n s then FastIncrease else ProportionalIncrease))
   \<and> (\<not> e \<and> d \<ge> target_Qdelay p \<longrightarrow> classify p e d n s = FairIncrease)
   \<and> (e \<and> d < target_Qdelay p \<longrightarrow> classify p e d n s = Noop)
   \<and> (e \<and> d \<ge> target_Qdelay p \<longrightarrow> classify p e d n s = MultiplicativeDecrease)
   \<and> classify p e d n (s\<lparr>avg_delay := x\<rparr>) = classify p e d n s
   \<and> window_action p now Noop d n s = s
   \<and> (\<not> mask_active s \<longrightarrow>
        (let r = raw_delay_of (ack_rtt a) s;
             s1 = (delay_estimator p (ack_rtt a) (ack_ecn a) s)
                    \<lparr>achieved_bytes :=
                        achieved_bytes (delay_estimator p (ack_rtt a) (ack_ecn a) s) + ack_bytes a,
                     received_bytes := received_bytes s + ack_bytes a\<rparr>;
             s2 = quick_adapt p (ack_time a) False r s1
         in \<not> qa_fires p (ack_time a) False r s1 \<longrightarrow>
            on_ack p a s = sleek_on_ack p a
              (check_bounds p (fulfill_check p (ack_time a)
                 (check_bounds p
                    (window_action p (ack_time a) (classify p (ack_ecn a) r (ack_bytes a) s2)
                       r (ack_bytes a) (fast_increase_track r (ack_bytes a) s2)))))))"
proof -
  have rows: "(\<not> e \<and> d < target_Qdelay p \<longrightarrow>
        classify p e d n s
          = (if fast_increase_qualifies d n s then FastIncrease else ProportionalIncrease))
   \<and> (\<not> e \<and> d \<ge> target_Qdelay p \<longrightarrow> classify p e d n s = FairIncrease)
   \<and> (e \<and> d < target_Qdelay p \<longrightarrow> classify p e d n s = Noop)
   \<and> (e \<and> d \<ge> target_Qdelay p \<longrightarrow> classify p e d n s = MultiplicativeDecrease)"
    by (simp add: classify_def quadrant_of_def)
  have "fast_increase_qualifies d n (s\<lparr>avg_delay := x\<rparr>) = fast_increase_qualifies d n s"
    by (simp add: fast_increase_qualifies_def)
  then have raw: "classify p e d n (s\<lparr>avg_delay := x\<rparr>) = classify p e d n s"
    by (simp add: classify_def)
  have handler: "\<not> mask_active s \<longrightarrow>
        (let r = raw_delay_of (ack_rtt a) s;
             s1 = (delay_estimator p (ack_rtt a) (ack_ecn a) s)
                    \<lparr>achieved_bytes :=
                        achieved_bytes (delay_estimator p (ack_rtt a) (ack_ecn a) s) + ack_bytes a,
                     received_bytes := received_bytes s + ack_bytes a\<rparr>;
             s2 = quick_adapt p (ack_time a) False r s1
         in \<not> qa_fires p (ack_time a) False r s1 \<longrightarrow>
            on_ack p a s = sleek_on_ack p a
              (check_bounds p (fulfill_check p (ack_time a)
                 (check_bounds p
                    (window_action p (ack_time a) (classify p (ack_ecn a) r (ack_bytes a) s2)
                       r (ack_bytes a) (fast_increase_track r (ack_bytes a) s2))))))"
    by (simp add: on_ack_unmasked_eq updateCwndOnAck_NSCC_def Let_def)
  from rows raw handler show ?thesis by simp
qed

text \<open>
  The claim as stated fails: for a flow in the empty-network run (the qualifying bytes
  already exceed its window) an unmasked ACK with no ECN and zero raw delay is not given
  proportional increase. The handler adds a quarter of the acknowledged bytes to
  \<open>cwnd\<close> at once and leaves \<open>inc_bytes\<close> alone.
\<close>

theorem quadrant_selection_counterexample:
  "\<not> mask_active ((scenario_flow 100000)\<lparr>fi_count := 100000\<rparr>)
   \<and> \<not> ack_ecn (scenario_ack 1000000 12000000 False)
   \<and> raw_delay_of (ack_rtt (scenario_ack 1000000 12000000 False))
        ((scenario_flow 100000)\<lparr>fi_count := 100000\<rparr>) < target_Qdelay scenario_params
   \<and> classify scenario_params (ack_ecn (scenario_ack 1000000 12000000 False))
        (raw_delay_of (ack_rtt (scenario_ack 1000000 12000000 False))
           ((scenario_flow 100000)\<lparr>fi_count := 100000\<rparr>))
        (ack_bytes (scenario_ack 1000000 12000000 False))
        ((scenario_flow 100000)\<lparr>fi_count := 100000\<rparr>) \<noteq> ProportionalIncrease
   \<and> inc_bytes (on_ack scenario_params (scenario_ack 1000000 12000000 False)
        ((scenario_flow 100000)\<lparr>fi_count := 100000\<rparr>)) = 0
   \<and> cwnd (on_ack scenario_params (scenario_ack 1000000 12000000 False)
        ((scenario_flow 100000)\<lparr>fi_count := 100000\<rparr>)) = 101024"
proof -
  let ?s = "(scenario_flow 100000)\<lparr>fi_count := 100000\<rparr>"
  let ?a = "scenario_ack 1000000 12000000 False"
  let ?s1 = "(delay_estimator scenario_params 12000000 False ?s)
               \<lparr>achieved_bytes :=
                   achieved_bytes (delay_estimator scenario_params 12000000 False ?s) + 4096,
                received_bytes := received_bytes ?s + 4096\<rparr>"
  have unmasked: "\<not> mask_active ?s"
    by (simp add: mask_active_def scenario_defs)
  have a: "ack_rtt ?a = 12000000" "\<not> ack_ecn ?a" "ack_bytes ?a = 4096" "ack_time ?a = 1000000"
    by (simp_all add: scenario_ack_def)
  have r: "raw_delay_of 12000000 ?s = 0"
    by (simp add: raw_delay_of_def scenario_defs)
  have t: "target_Qdelay scenario_params = 9000000"
    by (simp add: scenario_defs)
  have cl: "classify scenario_params False 0 4096 ?s = FastIncrease"
    by (simp add: classify_def quadrant_of_def fast_increase_qualifies_def scenario_defs)
  have s1: "?s1 = (scenario_flow 100000)
                    \<lparr>fi_count := 100000, achieved_bytes := 4096, received_bytes := 4096\<rparr>"
    by (simp add: delay_estimator_def update_delay_def ewma_sample_def raw_delay_of_def
          refine_base_rtt_def scenario_defs)
  let ?s2 = "(scenario_flow 100000)
               \<lparr>fi_count := 100000, achieved_bytes := 4096, received_bytes := 4096\<rparr>"
  have quiet: "\<not> qa_fires scenario_params 1000000 False 0 ?s2"
    by (simp add: qa_fires_def qa_evaluation_due_def qa_interval_elapsed_def qa_threshold_def
          scenario_defs)
  have qa: "quick_adapt scenario_params 1000000 False 0 ?s2 = ?s2"
    by (simp add: quick_adapt_def qa_evaluation_due_def qa_interval_elapsed_def qa_threshold_def
          scenario_defs)
  have cl2: "classify scenario_params False 0 4096 ?s2 = FastIncrease"
    by (simp add: classify_def quadrant_of_def fast_increase_qualifies_def scenario_defs)
  have act: "check_bounds scenario_params
               (window_action scenario_params 1000000 FastIncrease 0 4096
                  (fast_increase_track 0 4096 ?s2))
             = (scenario_flow 100000)
                 \<lparr>fi_count := 104096, achieved_bytes := 4096, received_bytes := 4096,
                  fast_mode := True, cwnd := 101024\<rparr>"
    by (simp add: check_bounds_eq fast_increase_def fast_increase_track_def min_cwnd_def
          scenario_defs)
  let ?s3 = "(scenario_flow 100000)
               \<lparr>fi_count := 104096, achieved_bytes := 4096, received_bytes := 4096,
                fast_mode := True, cwnd := 101024\<rparr>"
  have ful: "check_bounds scenario_params (fulfill_check scenario_params 1000000 ?s3) = ?s3"
    by (simp add: check_bounds_eq fulfill_check_def fulfill_due_def adjust_bytes_threshold_def
          min_cwnd_def scenario_defs)
  have upd: "updateCwndOnAck_NSCC scenario_params 1000000 False 0 4096 ?s2 = ?s3"
    unfolding updateCwndOnAck_NSCC_def Let_def qa cl2 act ful using quiet by simp
  have "on_ack scenario_params ?a ?s = sleek_on_ack scenario_params ?a ?s3"
    using on_ack_unmasked_eq [OF unmasked, of scenario_params ?a]
    by (simp only: a r s1 upd)
  then have res: "inc_bytes (on_ack scenario_params ?a ?s) = 0"
      "cwnd (on_ack scenario_params ?a ?s) = 101024"
    by (simp_all add: scenario_defs)
  from unmasked a(2) r t cl res show ?thesis
    unfolding a r by simp
qed

theorem quadrant_selection_witness:
  "\<not> fast_increase_qualifies 2000000 4096 (scenario_flow 100000)
   \<and> classify scenario_params False 2000000 4096 (scenario_flow 100000) = ProportionalIncrease
   \<and> classify scenario_params False 10000000 4096 (scenario_flow 100000) = FairIncrease
   \<and> classify scenario_params True 2000000 4096 (scenario_flow 100000) = Noop
   \<and> classify scenario_params True 18000000 4096 (scenario_flow 100000) = MultiplicativeDecrease
   \<and> fast_increase_qualifies 0 4096 ((scenario_flow 100000)\<lparr>fi_count := 100000\<rparr>)
   \<and> classify scenario_params False 0 4096 ((scenario_flow 100000)\<lparr>fi_count := 100000\<rparr>)
       = FastIncrease
   \<and> \<not> mask_active (scenario_flow 100000)
   \<and> cwnd (on_ack scenario_params (scenario_ack 1000000 14000000 True) (scenario_flow 100000))
       = 100000
   \<and> inc_bytes (on_ack scenario_params (scenario_ack 1000000 14000000 True) (scenario_flow 100000))
       = 0"
proof -
  let ?s = "scenario_flow 100000"
  let ?f = "(scenario_flow 100000)\<lparr>fi_count := 100000\<rparr>"
  let ?a = "scenario_ack 1000000 14000000 True"
  let ?s2 = "(scenario_flow 100000)
               \<lparr>avg_delay := 25000, achieved_bytes := 4096, received_bytes := 4096\<rparr>"
  have t: "target_Qdelay scenario_params = 9000000"
    by (simp add: scenario_defs)
  have slow: "\<not> fast_increase_qualifies 2000000 4096 ?s"
      "\<not> fast_increase_qualifies 10000000 4096 ?s"
      "\<not> fast_increase_qualifies 18000000 4096 ?s"
    by (simp_all add: fast_increase_qualifies_def)
  have quick: "fast_increase_qualifies 0 4096 ?f"
    by (simp add: fast_increase_qualifies_def scenario_defs)
  have unmasked: "\<not> mask_active ?s"
    by (simp add: mask_active_def scenario_defs)
  have a: "ack_rtt ?a = 14000000" "ack_ecn ?a" "ack_bytes ?a = 4096" "ack_time ?a = 1000000"
    by (simp_all add: scenario_ack_def)
  have r: "raw_delay_of 14000000 ?s = 2000000"
    by (simp add: raw_delay_of_def scenario_defs)
  have s1: "(delay_estimator scenario_params 14000000 True ?s)
               \<lparr>achieved_bytes :=
                   achieved_bytes (delay_estimator scenario_params 14000000 True ?s) + 4096,
                received_bytes := received_bytes ?s + 4096\<rparr> = ?s2"
    by (simp add: delay_estimator_def update_delay_def ewma_sample_def raw_delay_of_def
          refine_base_rtt_def scenario_defs)
  have quiet: "\<not> qa_fires scenario_params 1000000 False 2000000 ?s2"
    by (simp add: qa_fires_def qa_evaluation_due_def qa_interval_elapsed_def qa_threshold_def
          scenario_defs)
  have qa: "quick_adapt scenario_params 1000000 False 2000000 ?s2 = ?s2"
    by (simp add: quick_adapt_def qa_evaluation_due_def qa_interval_elapsed_def qa_threshold_def
          scenario_defs)
  have slow2: "\<not> fast_increase_qualifies 2000000 4096 ?s2"
    by (simp add: fast_increase_qualifies_def)
  have rows: "classify scenario_params False 2000000 4096 ?s = ProportionalIncrease"
      "classify scenario_params False 10000000 4096 ?s = FairIncrease"
      "classify scenario_params True 2000000 4096 ?s = Noop"
      "classify scenario_params True 18000000 4096 ?s = MultiplicativeDecrease"
      "classify scenario_params False 0 4096 ?f = FastIncrease"
      "classify scenario_params True 2000000 4096 ?s2 = Noop"
    using quadrant_selection [where e = False and d = 2000000 and n = 4096 and s = ?s
        and p = scenario_params]
      quadrant_selection [where e = False and d = 10000000 and n = 4096 and s = ?s
        and p = scenario_params]
      quadrant_selection [where e = True and d = 2000000 and n = 4096 and s = ?s
        and p = scenario_params]
      quadrant_selection [where e = True and d = 18000000 and n = 4096 and s = ?s
        and p = scenario_params]
      quadrant_selection [where e = False and d = 0 and n = 4096 and s = ?f
        and p = scenario_params]
      quadrant_selection [where e = True and d = 2000000 and n = 4096 and s = ?s2
        and p = scenario_params]
      slow slow2 quick
    by (simp_all add: t)
  have act: "check_bounds scenario_params
               (window_action scenario_params 1000000 Noop 2000000 4096
                  (fast_increase_track 2000000 4096 ?s2)) = ?s2"
    by (simp add: check_bounds_eq fast_increase_track_def min_cwnd_def scenario_defs)
  have ful: "check_bounds scenario_params (fulfill_check scenario_params 1000000 ?s2) = ?s2"
    by (simp add: check_bounds_eq fulfill_check_def fulfill_due_def adjust_bytes_threshold_def
          min_cwnd_def scenario_defs)
  have "on_ack scenario_params ?a ?s = sleek_on_ack scenario_params ?a ?s2"
    using quadrant_selection [where s = ?s and p = scenario_params and a = ?a] unmasked quiet
    by (simp only: Let_def a r s1 qa rows act ful) simp
  then have res: "cwnd (on_ack scenario_params ?a ?s) = 100000"
      "inc_bytes (on_ack scenario_params ?a ?s) = 0"
    by (simp_all add: scenario_defs)
  from slow(1) rows(1-5) quick unmasked res show ?thesis by (intro conjI)
qed

section \<open>Properties of the trace records\<close>

lemma logSample_rows:
  "is_open lg \<Longrightarrow>
   file_rows (logSample t f c i b m a r tg br e q xa xb xc xd xe xf lg)
     = file_rows lg @
       [[Micros t, Ident f, Whole c, Whole i, Whole b, Whole m,
         Micros a, Micros r, Micros tg, Micros br,
         Whole (if e then 1 else 0), Whole (uint q),
         Whole xa, Whole xb, Whole xc, Whole xd, Whole xe, Whole xf]]"
  by (simp add: logSample_def)

lemma logQAEvent_rows:
  "is_open lg \<Longrightarrow>
   file_rows (logQAEvent t f cb ca ab i lg)
     = file_rows lg @
       [[Micros t, Ident f, Whole ca, Whole i,
         Whole 0, Whole 0, Whole 0, Whole 0, Whole 0, Whole 0, Whole 0,
         Whole 5,
         Whole cb, Whole ca, Whole ab, Whole 0, Whole 0, Whole 0]]"
  by (simp add: logQAEvent_def)

lemma log_stays_open [simp]:
  "is_open (logSample t f c i b m a r tg br e q xa xb xc xd xe xf lg) = is_open lg"
  "is_open (logQAEvent t f cb ca ab i lg) = is_open lg"
  by (simp_all add: logSample_def logQAEvent_def is_open_def)

lemma classify_not_quick_adapt: "classify p e d n s \<noteq> QuickAdapt"
  by (simp add: classify_def quadrant_of_def)

lemma quadrant_cell:
  "uint (quadrant_code q)
     = (case q of FairIncrease \<Rightarrow> 0 | ProportionalIncrease \<Rightarrow> 1 | MultiplicativeDecrease \<Rightarrow> 2
        | Noop \<Rightarrow> 3 | FastIncrease \<Rightarrow> 4 | QuickAdapt \<Rightarrow> 5)"
  by (cases q) simp_all

lemma quick_adapt_traced_fst [simp]:
  "fst (quick_adapt_traced tr p now l d s lg) = check_bounds p (quick_adapt p now l d s)"
  by (simp add: quick_adapt_traced_def Let_def)

lemma quick_adapt_traced_snd:
  "snd (quick_adapt_traced tr p now l d s lg)
     = (if qa_fires p now l d s
        then log_quick_adapt tr now s (check_bounds p (quick_adapt p now l d s)) lg else lg)"
  by (simp add: quick_adapt_traced_def Let_def)

lemma updateCwndOnAck_NSCC_traced_fst [simp]:
  "fst (updateCwndOnAck_NSCC_traced tr p now e d n s lg) = updateCwndOnAck_NSCC p now e d n s"
  by (simp add: updateCwndOnAck_NSCC_traced_def updateCwndOnAck_NSCC_def fulfill_check_def Let_def)

lemma on_ack_traced_fst [simp]: "fst (on_ack_traced tr p a s lg) = on_ack p a s"
  by (simp add: on_ack_traced_def on_ack_def Let_def)

lemma handle_traced_fst [simp]: "fst (handle_traced tr p ev s lg) = handle p ev s"
  by (cases ev) (simp_all add: on_nack_traced_def on_nack_def Let_def)

lemma run_traced_fst: "fst (run_traced p tes s lg) = fold (handle p) (map snd tes) s"
  by (induction tes arbitrary: s lg) simp_all

lemma on_ack_traced_snd:
  "snd (on_ack_traced tr p a s lg)
     = (if qa_fires_on_ack p a s
        then log_quick_adapt tr (ack_time a) (accounted p a s)
               (check_bounds p (quick_adapt p (ack_time a) False (raw_delay_of (ack_rtt a) s)
                  (accounted p a s))) lg
        else if fulfill_fires p a s
        then log_fulfill tr p (ack_time a) (ack_ecn a) (raw_delay_of (ack_rtt a) s)
               (quadrant_on_ack p a s)
               (check_bounds p (fulfill_adjustment p (ack_time a) (before_fulfill p a s))) lg
        else lg)"
proof (cases "mask_active s")
  case True
  then show ?thesis
    by (simp add: on_ack_traced_def Let_def mask_active_def qa_fires_on_ack_def fulfill_fires_def
          controller_runs_def)
next
  case False
  then have unmasked: "\<not> mask_active (delay_estimator p (ack_rtt a) (ack_ecn a) s)"
    by (simp add: mask_active_def)
  show ?thesis
  proof (cases "qa_fires p (ack_time a) False (raw_delay_of (ack_rtt a) s) (accounted p a s)")
    case True
    with False unmasked show ?thesis
      by (simp add: on_ack_traced_def Let_def qa_fires_on_ack_def updateCwndOnAck_NSCC_traced_def
            quick_adapt_traced_snd accounted_def)
  next
    case quiet: False
    with False unmasked show ?thesis
      by (simp add: on_ack_traced_def Let_def qa_fires_on_ack_def fulfill_fires_def
            controller_runs_def updateCwndOnAck_NSCC_traced_def before_fulfill_def
            quadrant_on_ack_def accounted_def)
  qed
qed

lemma sleek_on_ack_in_flight [simp]: "in_flight (sleek_on_ack p a s) = in_flight s"
  by (simp add: sleek_on_ack_def runSleek_def sleek_exit_def sleek_enter_def Let_def)

lemma accounted_qa_fields [simp]:
  "in_flight (accounted p a s) = in_flight (refine_base_rtt p (ack_rtt a) s)"
  "achieved_bytes (accounted p a s) = achieved_bytes (refine_base_rtt p (ack_rtt a) s) + ack_bytes a"
  "cwnd (accounted p a s) = cwnd (refine_base_rtt p (ack_rtt a) s)"
  by (simp_all add: accounted_def Let_def delay_estimator_def update_delay_def)

lemma refine_base_rtt_qa_fields [simp]:
  "in_flight (refine_base_rtt p r s) = in_flight s"
  "achieved_bytes (refine_base_rtt p r s) = achieved_bytes s"
  by (simp_all add: refine_base_rtt_def update_base_rtt_def check_bounds_eq Let_def)

lemma handle_traced_snd_idle:
  assumes "\<not> fulfills p ev s" and "\<not> quick_adapts p ev s"
  shows "snd (handle_traced tr p ev s lg) = lg"
  using assms
  by (cases ev) (simp_all add: on_ack_traced_snd on_nack_traced_def quick_adapt_traced_snd Let_def)

lemma never_both: "\<not> (fulfills p ev s \<and> quick_adapts p ev s)"
  by (cases ev) (auto simp add: fulfill_fires_def controller_runs_def qa_fires_on_ack_def)

lemma handle_traced_open:
  "is_open (snd (handle_traced tr p ev s lg)) = is_open lg"
  by (cases ev)
     (simp_all add: on_ack_traced_snd on_nack_traced_def quick_adapt_traced_snd Let_def
        log_fulfill_def log_quick_adapt_def)

lemma handle_traced_length:
  assumes "is_open lg"
  shows "length (file_rows (snd (handle_traced tr p ev s lg)))
           = length (file_rows lg) + (if fulfills p ev s \<or> quick_adapts p ev s then 1 else 0)"
  using assms
  by (cases ev)
     (simp_all add: on_ack_traced_snd on_nack_traced_def quick_adapt_traced_snd Let_def
        log_fulfill_def log_quick_adapt_def logSample_rows logQAEvent_rows)

lemma run_traced_length:
  assumes "is_open lg"
  shows "length (file_rows (snd (run_traced p tes s lg)))
           = length (file_rows lg) + records_due p (map snd tes) s"
  using assms
proof (induction tes arbitrary: s lg)
  case Nil
  show ?case by simp
next
  case (Cons te tes)
  let ?r = "handle_traced (fst te) p (snd te) s lg"
  from Cons.prems have "is_open (snd ?r)" by (simp add: handle_traced_open)
  from Cons.IH [OF this, of "fst ?r"] Cons.prems show ?case
    by (simp add: handle_traced_length)
qed

lemma fulfill_record:
  assumes "is_open lg" and "fulfill_fires p a s"
  shows "file_rows (snd (handle_traced tr p (Ack a) s lg))
     = file_rows lg @
       [[Micros (picosec (ack_time a)), Ident (tr_flow tr),
         Whole (cwnd (on_ack p a s)), Whole (in_flight (on_ack p a s)),
         Whole (bdp (on_ack p a s)), Whole (maxwnd (on_ack p a s)),
         Micros (picosec (avg_delay (on_ack p a s))),
         Micros (picosec (raw_delay_of (ack_rtt a) s)),
         Micros (picosec (target_Qdelay p)),
         Micros (picosec (base_rtt (on_ack p a s))),
         Whole (if ack_ecn a then 1 else 0),
         Whole (case quadrant_on_ack p a s of
                  FairIncrease \<Rightarrow> 0 | ProportionalIncrease \<Rightarrow> 1 | MultiplicativeDecrease \<Rightarrow> 2
                | Noop \<Rightarrow> 3 | FastIncrease \<Rightarrow> 4 | QuickAdapt \<Rightarrow> 5),
         Whole (tr_inc_fair tr), Whole (tr_inc_prop tr), Whole (tr_inc_fast tr),
         Whole (tr_inc_eta tr), Whole (tr_dec_multi tr), Whole (tr_dec_quick tr)]]"
proof -
  let ?s3 = "check_bounds p (fulfill_adjustment p (ack_time a) (before_fulfill p a s))"
  from assms(2) have runs: "controller_runs p a s"
    and due: "fulfill_due p (ack_time a) (before_fulfill p a s)"
    by (simp_all add: fulfill_fires_def)
  from runs have quiet: "\<not> qa_fires_on_ack p a s"
    by (simp add: controller_runs_def qa_fires_on_ack_def)
  have eq: "on_ack p a s = sleek_on_ack p a ?s3"
    using runs due by (simp add: on_ack_controller_runs fulfill_check_def)
  have "snd (handle_traced tr p (Ack a) s lg)
      = log_fulfill tr p (ack_time a) (ack_ecn a) (raw_delay_of (ack_rtt a) s)
          (quadrant_on_ack p a s) ?s3 lg"
    using quiet assms(2) by (simp add: on_ack_traced_snd)
  then show ?thesis
    using assms(1) by (simp add: log_fulfill_def logSample_rows quadrant_cell eq)
qed

lemma quick_adapt_record_ack:
  assumes "is_open lg" and "qa_fires_on_ack p a s"
  shows "file_rows (snd (handle_traced tr p (Ack a) s lg))
     = file_rows lg @
       [[Micros (picosec (ack_time a)), Ident (tr_flow tr),
         Whole (cwnd (on_ack p a s)), Whole (in_flight s),
         Whole 0, Whole 0, Whole 0, Whole 0, Whole 0, Whole 0, Whole 0,
         Whole 5,
         Whole (cwnd (refine_base_rtt p (ack_rtt a) s)), Whole (cwnd (on_ack p a s)),
         Whole (achieved_bytes s + ack_bytes a), Whole 0, Whole 0, Whole 0]]"
  using assms
  by (simp add: on_ack_traced_snd log_quick_adapt_def logQAEvent_rows on_ack_qa_fires)

lemma quick_adapt_record_eval:
  assumes "is_open lg" and "qa_fires p now l d s"
  shows "file_rows (snd (handle_traced tr p (QuickAdaptEval now l d) s lg))
     = file_rows lg @
       [[Micros (picosec now), Ident (tr_flow tr),
         Whole (cwnd (handle p (QuickAdaptEval now l d) s)), Whole (in_flight s),
         Whole 0, Whole 0, Whole 0, Whole 0, Whole 0, Whole 0, Whole 0,
         Whole 5,
         Whole (cwnd s), Whole (cwnd (handle p (QuickAdaptEval now l d) s)),
         Whole (achieved_bytes s), Whole 0, Whole 0, Whole 0]]"
  using assms
  by (simp add: quick_adapt_traced_snd log_quick_adapt_def logQAEvent_rows)

lemma record_kind:
  assumes "is_open lg"
  shows "quick_adapts p ev s \<Longrightarrow>
           last (file_rows (snd (handle_traced tr p ev s lg))) ! 11 = Whole 5"
    and "fulfills p ev s \<Longrightarrow>
           last (file_rows (snd (handle_traced tr p ev s lg))) ! 11
             \<in> {Whole 0, Whole 1, Whole 2, Whole 3, Whole 4}"
proof -
  show "quick_adapts p ev s \<Longrightarrow>
           last (file_rows (snd (handle_traced tr p ev s lg))) ! 11 = Whole 5"
    using assms
    by (cases ev)
       (simp_all add: on_ack_traced_snd on_nack_traced_def quick_adapt_traced_snd Let_def
          log_quick_adapt_def logQAEvent_rows)
  assume f: "fulfills p ev s"
  then obtain a where ev: "ev = Ack a" and fires: "fulfill_fires p a s"
    by (cases ev) simp_all
  have "quadrant_on_ack p a s \<noteq> QuickAdapt"
    by (simp add: quadrant_on_ack_def classify_not_quick_adapt)
  then show "last (file_rows (snd (handle_traced tr p ev s lg))) ! 11
             \<in> {Whole 0, Whole 1, Whole 2, Whole 3, Whole 4}"
    unfolding ev fulfill_record [OF assms fires]
    by (cases "quadrant_on_ack p a s") simp_all
qed

text \<open>
  C9. Whenever the logger is open, the handling of an event appends exactly one record
  to the trace when it performs a fulfill adjustment, exactly one when Quick Adapt fires
  in it (the two never happen in the same event), and nothing otherwise; so a run of
  events leaves as many records as it had fulfill adjustments and Quick Adapt firings.
  The record of a fulfill adjustment is written by \<open>logSample\<close> and has 18 columns, in
  the header's order: time, flow id, cwnd, in-flight, bdp, maxwnd, avg\_delay,
  raw\_delay, target, base\_rtt (the values the handler leaves), the ecn bit as 0 or 1,
  the quadrant, and the six per-action byte accumulators. Its quadrant column holds the
  code of the action the classifier chose for the ACK: fair\_inc = 0, prop\_inc = 1,
  mult\_dec = 2, noop = 3, fast\_inc = 4, never 5. A Quick Adapt firing is written by
  the separate entry point \<open>logQAEvent\<close> as a record of its own kind: the quadrant
  column is 5, the window before and after the reset and the achieved bytes are in the
  first three accumulator columns, and the columns that do not apply are zero.
  \<open>logSample\<close> itself prints the quadrant byte it is given.
\<close>

theorem trace_records:
  assumes "is_open lg"
  shows "fst (handle_traced tr p ev s lg) = handle p ev s
   \<and> length (file_rows (snd (handle_traced tr p ev s lg)))
       = length (file_rows lg) + (if fulfills p ev s \<or> quick_adapts p ev s then 1 else 0)
   \<and> \<not> (fulfills p ev s \<and> quick_adapts p ev s)
   \<and> (\<not> fulfills p ev s \<and> \<not> quick_adapts p ev s \<longrightarrow> snd (handle_traced tr p ev s lg) = lg)
   \<and> length (file_rows (snd (run_traced p tes s lg)))
       = length (file_rows lg) + records_due p (map snd tes) s
   \<and> (fulfill_fires p a s \<longrightarrow>
        file_rows (snd (handle_traced tr p (Ack a) s lg))
          = file_rows lg @
            [[Micros (picosec (ack_time a)), Ident (tr_flow tr),
              Whole (cwnd (on_ack p a s)), Whole (in_flight (on_ack p a s)),
              Whole (bdp (on_ack p a s)), Whole (maxwnd (on_ack p a s)),
              Micros (picosec (avg_delay (on_ack p a s))),
              Micros (picosec (raw_delay_of (ack_rtt a) s)),
              Micros (picosec (target_Qdelay p)),
              Micros (picosec (base_rtt (on_ack p a s))),
              Whole (if ack_ecn a then 1 else 0),
              Whole (case quadrant_on_ack p a s of
                       FairIncrease \<Rightarrow> 0 | ProportionalIncrease \<Rightarrow> 1
                     | MultiplicativeDecrease \<Rightarrow> 2 | Noop \<Rightarrow> 3 | FastIncrease \<Rightarrow> 4
                     | QuickAdapt \<Rightarrow> 5),
              Whole (tr_inc_fair tr), Whole (tr_inc_prop tr), Whole (tr_inc_fast tr),
              Whole (tr_inc_eta tr), Whole (tr_dec_multi tr), Whole (tr_dec_quick tr)]])
   \<and> quadrant_on_ack p a s \<noteq> QuickAdapt
   \<and> (fulfills p ev s \<longrightarrow>
        last (file_rows (snd (handle_traced tr p ev s lg))) ! 11
          \<in> {Whole 0, Whole 1, Whole 2, Whole 3, Whole 4})
   \<and> (quick_adapts p ev s \<longrightarrow>
        last (file_rows (snd (handle_traced tr p ev s lg))) ! 11 = Whole 5)
   \<and> (qa_fires_on_ack p a s \<longrightarrow>
        file_rows (snd (handle_traced tr p (Ack a) s lg))
          = file_rows lg @
            [[Micros (picosec (ack_time a)), Ident (tr_flow tr),
              Whole (cwnd (on_ack p a s)), Whole (in_flight s),
              Whole 0, Whole 0, Whole 0, Whole 0, Whole 0, Whole 0, Whole 0,
              Whole 5,
              Whole (cwnd (refine_base_rtt p (ack_rtt a) s)), Whole (cwnd (on_ack p a s)),
              Whole (achieved_bytes s + ack_bytes a), Whole 0, Whole 0, Whole 0]])
   \<and> (qa_fires p now l d s \<longrightarrow>
        file_rows (snd (handle_traced tr p (QuickAdaptEval now l d) s lg))
          = file_rows lg @
            [[Micros (picosec now), Ident (tr_flow tr),
              Whole (cwnd (handle p (QuickAdaptEval now l d) s)), Whole (in_flight s),
              Whole 0, Whole 0, Whole 0, Whole 0, Whole 0, Whole 0, Whole 0,
              Whole 5,
              Whole (cwnd s), Whole (cwnd (handle p (QuickAdaptEval now l d) s)),
              Whole (achieved_bytes s), Whole 0, Whole 0, Whole 0]])
   \<and> file_rows (logSample t f c i b m av r tg br e q xa xb xc xd xe xf lg)
       = file_rows lg @
         [[Micros t, Ident f, Whole c, Whole i, Whole b, Whole m,
           Micros av, Micros r, Micros tg, Micros br,
           Whole (if e then 1 else 0), Whole (uint q),
           Whole xa, Whole xb, Whole xc, Whole xd, Whole xe, Whole xf]]
   \<and> file_rows (logQAEvent t f cb ca ab i lg)
       = file_rows lg @
         [[Micros t, Ident f, Whole ca, Whole i,
           Whole 0, Whole 0, Whole 0, Whole 0, Whole 0, Whole 0, Whole 0,
           Whole 5,
           Whole cb, Whole ca, Whole ab, Whole 0, Whole 0, Whole 0]]
   \<and> length (last (file_rows (logSample t f c i b m av r tg br e q xa xb xc xd xe xf lg)))
       = length csv_header
   \<and> length (last (file_rows (logQAEvent t f cb ca ab i lg))) = length csv_header
   \<and> csv_header ! 11 = Text ''quadrant''"
proof -
  have kind: "quadrant_on_ack p a s \<noteq> QuickAdapt"
    by (simp add: quadrant_on_ack_def classify_not_quick_adapt)
  have idle: "\<not> fulfills p ev s \<and> \<not> quick_adapts p ev s \<longrightarrow> snd (handle_traced tr p ev s lg) = lg"
    by (simp add: handle_traced_snd_idle)
  have widths:
    "length (last (file_rows (logSample t f c i b m av r tg br e q xa xb xc xd xe xf lg)))
       = length csv_header"
    "length (last (file_rows (logQAEvent t f cb ca ab i lg))) = length csv_header"
    "csv_header ! 11 = Text ''quadrant''"
    using assms by (simp_all add: logSample_rows logQAEvent_rows csv_header_def)
  from handle_traced_fst [of tr p ev s lg] handle_traced_length [OF assms, of tr p ev s]
    never_both [of p ev s] idle run_traced_length [OF assms, of p tes s]
    fulfill_record [OF assms, of p a s tr] kind record_kind [OF assms, of p ev s tr]
    quick_adapt_record_ack [OF assms, of p a s tr]
    quick_adapt_record_eval [OF assms, of p now l d s tr]
    logSample_rows [OF assms, of t f c i b m av r tg br e q xa xb xc xd xe xf]
    logQAEvent_rows [OF assms, of t f cb ca ab i] widths
  show ?thesis by (intro conjI impI; blast)
qed

theorem trace_records_witness:
  "is_open \<lparr>file_is_open = True, file_rows = [csv_header]\<rparr>
   \<and> fulfill_fires scenario_params (scenario_ack 13000000 12000000 False) (scenario_flow 60000)
   \<and> file_rows (snd (handle_traced
        \<lparr>tr_flow = 7, tr_inc_fair = 0, tr_inc_prop = 50331648, tr_inc_fast = 0,
           tr_inc_eta = 614, tr_dec_multi = 0, tr_dec_quick = 0\<rparr>
        scenario_params (Ack (scenario_ack 13000000 12000000 False)) (scenario_flow 60000)
        \<lparr>file_is_open = True, file_rows = [csv_header]\<rparr>))
      = [csv_header,
         [Micros 13000000, Ident 7, Whole 61452, Whole 0, Whole 150000, Whole 225000,
          Micros 0, Micros 0, Micros 9000000, Micros 12000000,
          Whole 0, Whole 1, Whole 0, Whole 50331648, Whole 0, Whole 614, Whole 0, Whole 0]]
   \<and> qa_fires scenario_params 25000000 False 0
        ((scenario_flow 225000)\<lparr>achieved_bytes := 1024, trigger_qa := True, in_flight := 200000\<rparr>)
   \<and> file_rows (snd (handle_traced
        \<lparr>tr_flow = 7, tr_inc_fair = 0, tr_inc_prop = 50331648, tr_inc_fast = 0,
           tr_inc_eta = 614, tr_dec_multi = 0, tr_dec_quick = 0\<rparr>
        scenario_params (QuickAdaptEval 25000000 False 0)
        ((scenario_flow 225000)\<lparr>achieved_bytes := 1024, trigger_qa := True, in_flight := 200000\<rparr>)
        \<lparr>file_is_open = True, file_rows = [csv_header]\<rparr>))
      = [csv_header,
         [Micros 25000000, Ident 7, Whole 4096, Whole 200000,
          Whole 0, Whole 0, Whole 0, Whole 0, Whole 0, Whole 0, Whole 0, Whole 5,
          Whole 225000, Whole 4096, Whole 1024, Whole 0, Whole 0, Whole 0]]
   \<and> \<not> fulfills scenario_params Timeout (scenario_flow 60000)
   \<and> \<not> quick_adapts scenario_params Timeout (scenario_flow 60000)
   \<and> snd (handle_traced
        \<lparr>tr_flow = 7, tr_inc_fair = 0, tr_inc_prop = 50331648, tr_inc_fast = 0,
           tr_inc_eta = 614, tr_dec_multi = 0, tr_dec_quick = 0\<rparr>
        scenario_params Timeout (scenario_flow 60000)
        \<lparr>file_is_open = True, file_rows = [csv_header]\<rparr>)
      = \<lparr>file_is_open = True, file_rows = [csv_header]\<rparr>
   \<and> file_rows (logSample 1000000 7 60000 58000 150000 225000 3000000 2000000 9000000 12000000
        True 200 0 240000 0 614 0 0 \<lparr>file_is_open = True, file_rows = [csv_header]\<rparr>)
      = [csv_header,
         [Micros 1000000, Ident 7, Whole 60000, Whole 58000, Whole 150000, Whole 225000,
          Micros 3000000, Micros 2000000, Micros 9000000, Micros 12000000,
          Whole 1, Whole 200, Whole 0, Whole 240000, Whole 0, Whole 614, Whole 0, Whole 0]]"
proof -
  let ?lg = "\<lparr>file_is_open = True, file_rows = [csv_header]\<rparr>"
  let ?tr = "\<lparr>tr_flow = 7, tr_inc_fair = 0, tr_inc_prop = 50331648, tr_inc_fast = 0,
           tr_inc_eta = 614, tr_dec_multi = 0, tr_dec_quick = 0\<rparr>"
  let ?a = "scenario_ack 13000000 12000000 False"
  let ?s = "scenario_flow 60000"
  let ?q = "(scenario_flow 225000)\<lparr>achieved_bytes := 1024, trigger_qa := True, in_flight := 200000\<rparr>"
  have opened: "is_open ?lg" by (simp add: is_open_def)
  have fires: "fulfill_fires scenario_params ?a ?s" by code_simp
  have quadrant: "quadrant_on_ack scenario_params ?a ?s = ProportionalIncrease" by code_simp
  have after: "cwnd (on_ack scenario_params ?a ?s) = 61452"
      "in_flight (on_ack scenario_params ?a ?s) = 0"
      "bdp (on_ack scenario_params ?a ?s) = 150000"
      "maxwnd (on_ack scenario_params ?a ?s) = 225000"
      "avg_delay (on_ack scenario_params ?a ?s) = 0"
      "base_rtt (on_ack scenario_params ?a ?s) = 12000000"
      "raw_delay_of (ack_rtt ?a) ?s = 0"
      "target_Qdelay scenario_params = 9000000"
      "ack_time ?a = 13000000" "\<not> ack_ecn ?a"
    by code_simp+
  have qa: "qa_fires scenario_params 25000000 False 0 ?q" by code_simp
  have reset: "cwnd (handle scenario_params (QuickAdaptEval 25000000 False 0) ?q) = 4096"
      "cwnd ?q = 225000" "achieved_bytes ?q = 1024" "in_flight ?q = 200000"
    by code_simp+
  have ps: "picosec 13000000 = 13000000" "picosec 0 = 0" "picosec 9000000 = 9000000"
      "picosec 12000000 = 12000000" "picosec 25000000 = 25000000"
    by (simp_all add: picosec_def)
  have idle: "\<not> fulfills scenario_params Timeout ?s" "\<not> quick_adapts scenario_params Timeout ?s"
    by simp_all
  note T = trace_records [OF opened, where tr = ?tr and p = scenario_params and tes = "[]"
      and t = 1000000 and f = 7 and c = 60000 and i = 58000 and b = 150000 and m = 225000
      and av = 3000000 and r = 2000000 and tg = 9000000 and br = 12000000 and e = True and q = 200
      and xa = 0 and xb = 240000 and xc = 0 and xd = 614 and xe = 0 and xf = 0
      and cb = 0 and ca = 0 and ab = 0 and now = 25000000 and l = False and d = 0
      and ev = Timeout and a = ?a]
  from T [where s = ?s] fires
  have sample: "file_rows (snd (handle_traced ?tr scenario_params (Ack ?a) ?s ?lg))
      = file_rows ?lg @
            [[Micros (picosec (ack_time ?a)), Ident (tr_flow ?tr),
              Whole (cwnd (on_ack scenario_params ?a ?s)),
              Whole (in_flight (on_ack scenario_params ?a ?s)),
              Whole (bdp (on_ack scenario_params ?a ?s)),
              Whole (maxwnd (on_ack scenario_params ?a ?s)),
              Micros (picosec (avg_delay (on_ack scenario_params ?a ?s))),
              Micros (picosec (raw_delay_of (ack_rtt ?a) ?s)),
              Micros (picosec (target_Qdelay scenario_params)),
              Micros (picosec (base_rtt (on_ack scenario_params ?a ?s))),
              Whole (if ack_ecn ?a then 1 else 0),
              Whole (case quadrant_on_ack scenario_params ?a ?s of
                       FairIncrease \<Rightarrow> 0 | ProportionalIncrease \<Rightarrow> 1
                     | MultiplicativeDecrease \<Rightarrow> 2 | Noop \<Rightarrow> 3 | FastIncrease \<Rightarrow> 4
                     | QuickAdapt \<Rightarrow> 5),
              Whole (tr_inc_fair ?tr), Whole (tr_inc_prop ?tr), Whole (tr_inc_fast ?tr),
              Whole (tr_inc_eta ?tr), Whole (tr_dec_multi ?tr), Whole (tr_dec_quick ?tr)]]"
    by blast
  from T [where s = ?q] qa
  have event: "file_rows (snd (handle_traced ?tr scenario_params (QuickAdaptEval 25000000 False 0) ?q ?lg))
      = file_rows ?lg @
            [[Micros (picosec 25000000), Ident (tr_flow ?tr),
              Whole (cwnd (handle scenario_params (QuickAdaptEval 25000000 False 0) ?q)),
              Whole (in_flight ?q),
              Whole 0, Whole 0, Whole 0, Whole 0, Whole 0, Whole 0, Whole 0,
              Whole 5,
              Whole (cwnd ?q), Whole (cwnd (handle scenario_params (QuickAdaptEval 25000000 False 0) ?q)),
              Whole (achieved_bytes ?q), Whole 0, Whole 0, Whole 0]]"
    by blast
  from T [where s = ?s] idle
  have quiet: "snd (handle_traced ?tr scenario_params Timeout ?s ?lg) = ?lg"
    by blast
  from T [where s = ?s]
  have byte: "file_rows (logSample 1000000 7 60000 58000 150000 225000 3000000 2000000 9000000
        12000000 True 200 0 240000 0 614 0 0 ?lg)
      = file_rows ?lg @
         [[Micros 1000000, Ident 7, Whole 60000, Whole 58000, Whole 150000, Whole 225000,
           Micros 3000000, Micros 2000000, Micros 9000000, Micros 12000000,
           Whole (if True then 1 else 0), Whole (uint (200 :: 8 word)),
           Whole 0, Whole 240000, Whole 0, Whole 614, Whole 0, Whole 0]]"
    by blast
  have s1: "file_rows (snd (handle_traced ?tr scenario_params (Ack ?a) ?s ?lg))
      = [csv_header,
         [Micros 13000000, Ident 7, Whole 61452, Whole 0, Whole 150000, Whole 225000,
          Micros 0, Micros 0, Micros 9000000, Micros 12000000,
          Whole 0, Whole 1, Whole 0, Whole 50331648, Whole 0, Whole 614, Whole 0, Whole 0]]"
    unfolding sample after(1-9) quadrant ps by (simp add: after(10))
  have s2: "file_rows (snd (handle_traced ?tr scenario_params (QuickAdaptEval 25000000 False 0) ?q ?lg))
      = [csv_header,
         [Micros 25000000, Ident 7, Whole 4096, Whole 200000,
          Whole 0, Whole 0, Whole 0, Whole 0, Whole 0, Whole 0, Whole 0, Whole 5,
          Whole 225000, Whole 4096, Whole 1024, Whole 0, Whole 0, Whole 0]]"
    unfolding event reset ps by simp
  have s3: "file_rows (logSample 1000000 7 60000 58000 150000 225000 3000000 2000000 9000000 12000000
        True 200 0 240000 0 614 0 0 ?lg)
      = [csv_header,
         [Micros 1000000, Ident 7, Whole 60000, Whole 58000, Whole 150000, Whole 225000,
          Micros 3000000, Micros 2000000, Micros 9000000, Micros 12000000,
          Whole 1, Whole 200, Whole 0, Whole 240000, Whole 0, Whole 614, Whole 0, Whole 0]]"
    unfolding byte by simp
  from opened fires s1 qa s2 idle quiet s3 show ?thesis by (intro conjI)
qed
end
